theory Spec2Isabelle
  imports Complex_Main "HOL-Library.Char_ord" "HOL-Library.List_Lexorder"
begin

section \<open>Values: numbers, cells, tables, results\<close>

text \<open>
  The services compute on pandas data frames with numpy scalars.  A numpy float is modelled
  as an exact real extended by the three special values of binary64 that the services can
  produce and test for: not-a-number and the two infinities.  Division by zero follows
  numpy (\<open>0/0\<close> is NaN, \<open>x/0\<close> is an infinity), comparisons with NaN are false.
  The rounding error and the overflow of binary64 are not modelled: \<open>Fin r\<close> is the
  exact result.  A theorem about a score is therefore stated where binary64 computes the
  same: it admits the inputs on which the operations that decide the result are exact, and
  it bounds a rounded score instead of fixing its last digit.
\<close>

datatype fl = Fin real | PInf | NInf | NaN

fun fl_neg :: "fl \<Rightarrow> fl" where
  "fl_neg (Fin a) = Fin (- a)"
| "fl_neg PInf = NInf"
| "fl_neg NInf = PInf"
| "fl_neg NaN = NaN"

fun fl_add :: "fl \<Rightarrow> fl \<Rightarrow> fl" where
  "fl_add NaN _ = NaN"
| "fl_add _ NaN = NaN"
| "fl_add (Fin a) (Fin b) = Fin (a + b)"
| "fl_add PInf NInf = NaN"
| "fl_add NInf PInf = NaN"
| "fl_add PInf _ = PInf"
| "fl_add _ PInf = PInf"
| "fl_add NInf _ = NInf"
| "fl_add _ NInf = NInf"

definition fl_sub :: "fl \<Rightarrow> fl \<Rightarrow> fl" where
  "fl_sub a b = fl_add a (fl_neg b)"

fun fl_mul :: "fl \<Rightarrow> fl \<Rightarrow> fl" where
  "fl_mul NaN _ = NaN"
| "fl_mul _ NaN = NaN"
| "fl_mul (Fin a) (Fin b) = Fin (a * b)"
| "fl_mul (Fin a) PInf = (if a = 0 then NaN else if 0 < a then PInf else NInf)"
| "fl_mul (Fin a) NInf = (if a = 0 then NaN else if 0 < a then NInf else PInf)"
| "fl_mul PInf (Fin b) = (if b = 0 then NaN else if 0 < b then PInf else NInf)"
| "fl_mul NInf (Fin b) = (if b = 0 then NaN else if 0 < b then NInf else PInf)"
| "fl_mul PInf PInf = PInf"
| "fl_mul NInf NInf = PInf"
| "fl_mul PInf NInf = NInf"
| "fl_mul NInf PInf = NInf"

fun fl_div :: "fl \<Rightarrow> fl \<Rightarrow> fl" where
  "fl_div NaN _ = NaN"
| "fl_div _ NaN = NaN"
| "fl_div (Fin a) (Fin b) =
     (if b = 0 then (if a = 0 then NaN else if 0 < a then PInf else NInf) else Fin (a / b))"
| "fl_div (Fin a) _ = Fin 0"
| "fl_div PInf (Fin b) = (if 0 \<le> b then PInf else NInf)"
| "fl_div NInf (Fin b) = (if 0 \<le> b then NInf else PInf)"
| "fl_div _ _ = NaN"

fun fl_lt :: "fl \<Rightarrow> fl \<Rightarrow> bool" where
  "fl_lt NaN _ = False"
| "fl_lt _ NaN = False"
| "fl_lt (Fin a) (Fin b) = (a < b)"
| "fl_lt _ NInf = False"
| "fl_lt PInf _ = False"
| "fl_lt _ _ = True"

definition fl_gt :: "fl \<Rightarrow> fl \<Rightarrow> bool" where
  "fl_gt a b = fl_lt b a"

fun is_finite :: "fl \<Rightarrow> bool" where
  "is_finite (Fin _) = True"
| "is_finite _ = False"

text \<open>
  \<open>round(x, 2)\<close>: both Python's \<open>round\<close> on a float and numpy's on a \<open>float64\<close> round
  to the nearest multiple of \<open>0.01\<close>; NaN and the infinities are returned unchanged.  On
  the exact value a tie goes to the even neighbour.  The binary64 value that the program
  rounds can lie on either side of such a tie, so the last digit of a score is fixed only
  up to \<open>0.01\<close>, and the result stays within \<open>0.005\<close> of the exact value up to the error of
  the operations before it.
\<close>

definition rint :: "real \<Rightarrow> int" where
  "rint x =
     (let f = \<lfloor>x\<rfloor>; d = x - of_int f
      in if d < 1 / 2 then f else if 1 / 2 < d then f + 1 else if even f then f else f + 1)"

definition round2 :: "real \<Rightarrow> real" where
  "round2 x = of_int (rint (x * 100)) / 100"

fun np_round2 :: "fl \<Rightarrow> fl" where
  "np_round2 (Fin x) = Fin (round2 x)"
| "np_round2 v = v"

text \<open>
  A cell of a data frame: missing (NaN, None or NaT, which \<open>isnull\<close> and \<open>dropna\<close> treat
  alike), a finite number, a string, or a timestamp (nanoseconds since the epoch, as
  \<open>datetime64[ns]\<close> holds it).  Infinite cells are not modelled.  The frames come from
  \<open>pd.read_csv\<close> and \<open>pd.read_excel\<close>, so the numbers of a column are 64-bit integers or
  binary64 numbers.
\<close>

datatype cell = Null | Num real | Text string | Stamp int

fun isnull :: "cell \<Rightarrow> bool" where
  "isnull Null = True"
| "isnull _ = False"

text \<open>
  A data frame is its row count (the length of the index) and its named columns, in order.
  pandas keeps every column as long as the index; \<open>wf_table\<close> states that, and that the
  column names are unique.
\<close>

record table =
  nrows :: nat
  columns :: "(string \<times> cell list) list"

definition wf_table :: "table \<Rightarrow> bool" where
  "wf_table df \<longleftrightarrow>
     distinct (map fst (columns df)) \<and> list_all (\<lambda>c. length (snd c) = nrows df) (columns df)"

text \<open>
  Exceptions are values: every operation that can raise returns a sum.  \<open>str(e)\<close> of a
  \<open>KeyError\<close> is the key in quotes; the messages that a library composes are carried as
  text and not modelled word for word.
\<close>

datatype pyerr = KeyError string | TypeError string | ZeroDivisionError string

fun err_str :: "pyerr \<Rightarrow> string" where
  "err_str (KeyError k) = [CHR 0x27] @ k @ [CHR 0x27]"
| "err_str (TypeError m) = m"
| "err_str (ZeroDivisionError m) = m"

definition col_in :: "string \<Rightarrow> table \<Rightarrow> bool" where
  "col_in col df \<longleftrightarrow> col \<in> set (map fst (columns df))"

definition df_getitem :: "table \<Rightarrow> string \<Rightarrow> pyerr + cell list" where
  "df_getitem df col =
     (case map_of (columns df) col of None \<Rightarrow> Inl (KeyError col) | Some c \<Rightarrow> Inr c)"

text \<open>
  The values the services put into their result dictionaries, and a dictionary as the list
  of its items in insertion order.  \<open>dict_set\<close> is the assignment \<open>d[k] = v\<close>.
\<close>

datatype pyval = PyNone | PyInt int | PyFloat fl | PyStr string | PyList "pyval list"

type_synonym pydict = "(string \<times> pyval) list"

fun dict_set :: "('k \<times> 'v) list \<Rightarrow> 'k \<Rightarrow> 'v \<Rightarrow> ('k \<times> 'v) list" where
  "dict_set [] k v = [(k, v)]"
| "dict_set ((k', v') # d) k v = (if k' = k then (k, v) # d else (k', v') # dict_set d k v)"

definition dict_get :: "('k \<times> 'v) list \<Rightarrow> 'k \<Rightarrow> 'v option" where
  "dict_get d k = map_of d k"

section \<open>Core quality: completeness\<close>

text \<open>
  \<open>df.size\<close> is rows times columns; \<open>df.isnull().sum().sum()\<close> adds the per-column counts of
  missing cells.  Both quotients are numpy divisions (\<open>missing_cells\<close> is a numpy integer),
  so a table without rows divides zero by zero without raising, and the score is NaN.
\<close>

definition df_size :: "table \<Rightarrow> nat" where
  "df_size df = nrows df * length (columns df)"

definition isnull_sum :: "table \<Rightarrow> nat list" where
  "isnull_sum df = map (\<lambda>c. length (filter isnull (snd c))) (columns df)"

definition completeness :: "table \<Rightarrow> pydict" where
  "completeness df =
     (let total_cells = df_size df;
          missing_cells = sum_list (isnull_sum df);
          completeness_score =
            np_round2 (fl_mul (fl_div (Fin (real total_cells - real missing_cells))
                                      (Fin (real total_cells))) (Fin 100));
          ratio = fl_div (Fin (real missing_cells)) (Fin (real total_cells));
          status = (if fl_gt ratio (Fin (2 / 10)) then ''CRITICAL''
                    else if fl_gt ratio (Fin (1 / 10)) then ''WARNING'' else ''GOOD'')
      in [(''score'', PyFloat completeness_score),
          (''missing_cells'', PyInt (int missing_cells)),
          (''status'', PyStr status)])"

text \<open>
  \<open>uniqueness\<close>: \<open>df.duplicated()\<close> marks every row that repeats an earlier one (missing
  cells compare equal there) and is empty for a frame without rows or without columns.
  \<open>len(df)\<close> is a Python integer, \<open>duplicate_rows\<close> a numpy one, so the quotient is a
  numpy division again.
\<close>

definition nth_cell :: "cell list \<Rightarrow> nat \<Rightarrow> cell" where
  "nth_cell c i = (if i < length c then c ! i else Null)"

definition df_rows :: "table \<Rightarrow> cell list list" where
  "df_rows df = map (\<lambda>i. map (\<lambda>c. nth_cell (snd c) i) (columns df)) [0..<nrows df]"

definition duplicated_sum :: "table \<Rightarrow> nat" where
  "duplicated_sum df =
     (if nrows df = 0 \<or> columns df = [] then 0
      else length (df_rows df) - length (remdups (df_rows df)))"

definition uniqueness :: "table \<Rightarrow> pydict" where
  "uniqueness df =
     (let total_rows = nrows df;
          duplicate_rows = duplicated_sum df;
          score = fl_sub (Fin 100)
                    (fl_mul (fl_div (Fin (real duplicate_rows)) (Fin (real total_rows))) (Fin 100))
      in [(''duplicate_count'', PyInt (int duplicate_rows)),
          (''uniqueness_score'', PyFloat (np_round2 score)),
          (''status'', PyStr (if 0 < duplicate_rows then ''Issue'' else ''OK''))])"

section \<open>Numeric columns\<close>

text \<open>
  The reductions of a pandas series skip missing cells.  On a column that holds a string
  they raise \<open>TypeError\<close>; the model raises it for a timestamp cell as well, where pandas
  would compute on time deltas.
\<close>

fun numeric_values :: "cell list \<Rightarrow> pyerr + real list" where
  "numeric_values [] = Inr []"
| "numeric_values (Null # cs) = numeric_values cs"
| "numeric_values (Num x # cs) =
     (case numeric_values cs of Inl e \<Rightarrow> Inl e | Inr vs \<Rightarrow> Inr (x # vs))"
| "numeric_values (_ # cs) = Inl (TypeError ''could not convert to numeric'')"

text \<open>\<open>std(ddof)\<close>: NaN on an empty series and when \<open>n - ddof\<close> is not positive.\<close>

definition series_std :: "nat \<Rightarrow> real list \<Rightarrow> fl" where
  "series_std ddof vals =
     (let n = length vals
      in if n \<le> ddof \<or> n = 0 then NaN
         else let m = sum_list vals / real n
              in Fin (sqrt (sum_list (map (\<lambda>x. (x - m)\<^sup>2) vals) / real (n - ddof))))"

text \<open>The mean of a boolean series: the share of \<open>True\<close>, NaN when the series is empty.\<close>

definition bool_mean :: "bool list \<Rightarrow> fl" where
  "bool_mean flags =
     (if flags = [] then NaN
      else Fin (real (length (filter (\<lambda>b. b) flags)) / real (length flags)))"

text \<open>
  A per-column loop without a handler: \<open>result[col] = ...\<close> for each column in turn, and
  the first exception of a column's computation leaves the loop and the operation.
\<close>

fun for_each_col ::
  "(string \<Rightarrow> pyerr + pydict) \<Rightarrow> string list \<Rightarrow> (string \<times> pydict) list
     \<Rightarrow> pyerr + (string \<times> pydict) list" where
  "for_each_col body [] result = Inr result"
| "for_each_col body (col # cols) result =
     (case body col of
        Inl e \<Rightarrow> Inl e
      | Inr entry \<Rightarrow> for_each_col body cols (dict_set result col entry))"

section \<open>Semantic quality\<close>

text \<open>
  The part of the configuration document that the modelled operations read.  A domain
  rule is the list the document gives for a column: two bounds, or the allowed values.
\<close>

record config =
  frequency_columns :: "string list"
  powerfactor_columns :: "string list"
  domain_rules :: "(string \<times> cell list) list"

text \<open>
  \<open>series < bound\<close>, cell by cell: a missing cell (or bound) compares false, numbers,
  strings and timestamps compare with their own kind (strings in lexicographic order), and
  a comparison across kinds raises \<open>TypeError\<close>.  pandas decides by the dtype of a whole
  numeric column; the cell-wise rule agrees with it on every column that holds a value
  of another kind.
\<close>

fun cell_lt :: "cell \<Rightarrow> cell \<Rightarrow> pyerr + bool" where
  "cell_lt Null _ = Inr False"
| "cell_lt _ Null = Inr False"
| "cell_lt (Num a) (Num b) = Inr (a < b)"
| "cell_lt (Text a) (Text b) = Inr (a < b)"
| "cell_lt (Stamp a) (Stamp b) = Inr (a < b)"
| "cell_lt _ _ = Inl (TypeError ''comparison not supported between these types'')"

fun collect :: "(pyerr + 'a) list \<Rightarrow> pyerr + 'a list" where
  "collect [] = Inr []"
| "collect (x # xs) =
     (case x of
        Inl e \<Rightarrow> Inl e
      | Inr v \<Rightarrow> (case collect xs of Inl e \<Rightarrow> Inl e | Inr vs \<Rightarrow> Inr (v # vs)))"

definition series_lt :: "cell list \<Rightarrow> cell \<Rightarrow> pyerr + bool list" where
  "series_lt c bound = collect (map (\<lambda>x. cell_lt x bound) c)"

definition series_gt :: "cell list \<Rightarrow> cell \<Rightarrow> pyerr + bool list" where
  "series_gt c bound = collect (map (\<lambda>x. cell_lt bound x) c)"

definition series_or :: "bool list \<Rightarrow> bool list \<Rightarrow> bool list" where
  "series_or xs ys = map (\<lambda>p. fst p \<or> snd p) (zip xs ys)"

text \<open>
  \<open>business_rule_compliance\<close>: one violation for a frequency column whose sample standard
  deviation exceeds \<open>0.2\<close>, and one for every row of a power-factor column outside
  \<open>[-1, 1]\<close>.  There is no handler: an exception of a column leaves the operation.
\<close>

fun freq_violations :: "table \<Rightarrow> string list \<Rightarrow> nat \<Rightarrow> pyerr + nat" where
  "freq_violations df [] rule_violations = Inr rule_violations"
| "freq_violations df (col # cols) rule_violations =
     (case df_getitem df col of
        Inl e \<Rightarrow> Inl e
      | Inr c \<Rightarrow>
          (case numeric_values c of
             Inl e \<Rightarrow> Inl e
           | Inr vals \<Rightarrow>
               (let std_val = series_std 1 vals
                in freq_violations df cols
                     (if std_val \<noteq> NaN \<and> fl_gt std_val (Fin (2 / 10))
                      then rule_violations + 1 else rule_violations))))"

fun pf_violations :: "table \<Rightarrow> string list \<Rightarrow> nat \<Rightarrow> pyerr + nat" where
  "pf_violations df [] rule_violations = Inr rule_violations"
| "pf_violations df (col # cols) rule_violations =
     (case df_getitem df col of
        Inl e \<Rightarrow> Inl e
      | Inr c \<Rightarrow>
          (case series_lt c (Num (- 1)) of
             Inl e \<Rightarrow> Inl e
           | Inr too_low \<Rightarrow>
               (case series_gt c (Num 1) of
                  Inl e \<Rightarrow> Inl e
                | Inr too_high \<Rightarrow>
                    (let invalid_pf = filter (\<lambda>b. b) (series_or too_low too_high)
                     in pf_violations df cols
                          (if invalid_pf \<noteq> [] then rule_violations + length invalid_pf
                           else rule_violations)))))"

definition business_rule_compliance :: "config \<Rightarrow> table \<Rightarrow> pyerr + pydict" where
  "business_rule_compliance cfg df =
     (let freq_cols = filter (\<lambda>col. col_in col df) (frequency_columns cfg);
          pf_cols = filter (\<lambda>col. col_in col df) (powerfactor_columns cfg)
      in case freq_violations df freq_cols 0 of
           Inl e \<Rightarrow> Inl e
         | Inr v \<Rightarrow>
             (case pf_violations df pf_cols v of
                Inl e \<Rightarrow> Inl e
              | Inr rule_violations \<Rightarrow>
                  (let total_rules = length freq_cols + length pf_cols;
                       compliance_score =
                         1 - real rule_violations / (real total_rules + 1 / 1000000);
                       status = (if compliance_score < 95 / 100 then ''Issue'' else ''OK'')
                   in Inr [(''rule_violations'', PyInt (int rule_violations)),
                           (''compliance_score'', PyFloat (Fin (round2 compliance_score))),
                           (''status'', PyStr status)])))"

text \<open>
  \<open>domain_value_validity\<close>: a rule that is a list of two entries is read as \<open>[min, max]\<close>,
  whatever the entries are; every other rule is a set of allowed values.
\<close>

fun domain_invalid ::
  "table \<Rightarrow> (string \<times> cell list) list \<Rightarrow> string list \<Rightarrow> pyerr + string list" where
  "domain_invalid df [] invalid_columns = Inr invalid_columns"
| "domain_invalid df ((col, rule) # rules) invalid_columns =
     (if col_in col df then
        (case df_getitem df col of
           Inl e \<Rightarrow> Inl e
         | Inr c \<Rightarrow>
             (if length rule = 2 then
                (case series_lt c (rule ! 0) of
                   Inl e \<Rightarrow> Inl e
                 | Inr too_low \<Rightarrow>
                     (case series_gt c (rule ! 1) of
                        Inl e \<Rightarrow> Inl e
                      | Inr too_high \<Rightarrow>
                          domain_invalid df rules
                            (if list_ex (\<lambda>b. b) (series_or too_low too_high)
                             then invalid_columns @ [col] else invalid_columns)))
              else
                domain_invalid df rules
                  (if list_ex (\<lambda>x. x \<notin> set rule) c
                   then invalid_columns @ [col] else invalid_columns)))
      else domain_invalid df rules invalid_columns)"

definition domain_value_validity :: "config \<Rightarrow> table \<Rightarrow> pyerr + pydict" where
  "domain_value_validity cfg df =
     (case domain_invalid df (domain_rules cfg) [] of
        Inl e \<Rightarrow> Inl e
      | Inr invalid_columns \<Rightarrow>
          (let score = 1 - real (length invalid_columns)
                             / real (max (length (domain_rules cfg)) 1);
               status = (if score < 88 / 100 then ''Issue'' else ''OK'')
           in Inr [(''invalid_columns'', PyList (map PyStr invalid_columns)),
                   (''domain_validity_score'', PyFloat (Fin (round2 score))),
                   (''status'', PyStr status)]))"

section \<open>Temporal quality\<close>

text \<open>
  \<open>pd.to_datetime\<close> belongs to pandas, not to the repository: its reading of one string or
  number is a parameter of the model, \<open>None\<close> where it cannot read the cell.  A missing cell
  becomes NaT and a timestamp is kept.  Time zones are not modelled.
\<close>

type_synonym parser = "cell \<Rightarrow> int option"

definition to_timestamp :: "parser \<Rightarrow> cell \<Rightarrow> int option" where
  "to_timestamp parse x = (case x of Null \<Rightarrow> None | Stamp t \<Rightarrow> Some t | _ \<Rightarrow> parse x)"

text \<open>\<open>pd.to_datetime(series, errors='coerce').dropna()\<close>: the timestamps that parse.\<close>

definition to_datetime_dropna :: "parser \<Rightarrow> cell list \<Rightarrow> int list" where
  "to_datetime_dropna parse c = List.map_filter (to_timestamp parse) c"

text \<open>
  \<open>series.diff()\<close> puts a missing value first and then the successive differences;
  \<open>.dt.total_seconds().dropna()\<close> turns nanoseconds into seconds and drops the first.
  pandas divides the count of nanoseconds by \<open>10\<^sup>9\<close>, which is exact in binary64 for the
  whole seconds below \<open>4.6 * 10\<^sup>9\<close>.
\<close>

fun diff :: "int list \<Rightarrow> int option list" where
  "diff [] = []"
| "diff (x # xs) = None # map (\<lambda>p. Some (snd p - fst p)) (zip (x # xs) xs)"

definition total_seconds :: "int \<Rightarrow> real" where
  "total_seconds d = real_of_int d / 1000000000"

definition gaps_seconds :: "int list \<Rightarrow> real list" where
  "gaps_seconds parsed = List.map_filter (map_option total_seconds) (diff parsed)"

text \<open>\<open>series.median()\<close>: NaN on an empty series.\<close>

definition series_median :: "real list \<Rightarrow> fl" where
  "series_median vals =
     (let s = sort vals; n = length s
      in if n = 0 then NaN
         else if odd n then Fin (s ! (n div 2))
         else Fin ((s ! (n div 2 - 1) + s ! (n div 2)) / 2))"



text \<open>
  \<open>freshness_score\<close> reads the clock once, \<open>now = datetime.now()\<close>: the reading is an
  argument of the model, in nanoseconds since the epoch.  \<open>(now - latest).days\<close> is the
  floor of the difference in days.
\<close>

definition series_max :: "int list \<Rightarrow> int option" where
  "series_max xs = (case xs of [] \<Rightarrow> None | x # r \<Rightarrow> Some (fold max r x))"

definition td_days :: "int \<Rightarrow> int" where
  "td_days d = d div 86400000000000"

definition freshness_score_col :: "parser \<Rightarrow> int \<Rightarrow> table \<Rightarrow> string \<Rightarrow> pyerr + pydict" where
  "freshness_score_col parse now df col =
     (case df_getitem df col of
        Inl e \<Rightarrow> Inl e
      | Inr c \<Rightarrow>
          (let score = (case series_max (to_datetime_dropna parse c) of
                          None \<Rightarrow> 0
                        | Some latest \<Rightarrow> max 0 (100 - td_days (now - latest)))
           in Inr [(''freshness_%'', PyInt score),
                   (''status'', PyStr (if score < 85 then ''Issue'' else ''OK''))]))"

definition freshness_score ::
  "parser \<Rightarrow> int \<Rightarrow> table \<Rightarrow> string list \<Rightarrow> pyerr + (string \<times> pydict) list" where
  "freshness_score parse now df datetime_columns =
     for_each_col (freshness_score_col parse now df) datetime_columns []"

text \<open>
  \<open>temporal_pattern\<close>: the shares of the hours of the day among the parsed timestamps, and
  their sample standard deviation, which is NaN when only one hour occurs.
\<close>

definition hour_of :: "int \<Rightarrow> int" where
  "hour_of t = (t div 3600000000000) mod 24"

definition value_counts_normalized :: "int list \<Rightarrow> real list" where
  "value_counts_normalized xs =
     map (\<lambda>h. real (length (filter (\<lambda>x. x = h) xs)) / real (length xs)) (remdups xs)"

definition temporal_pattern_col :: "parser \<Rightarrow> table \<Rightarrow> string \<Rightarrow> pyerr + pydict" where
  "temporal_pattern_col parse df col =
     (case df_getitem df col of
        Inl e \<Rightarrow> Inl e
      | Inr c \<Rightarrow>
          (let parsed = to_datetime_dropna parse c
           in if parsed = []
              then Inr [(''pattern_score_%'', PyInt 0), (''status'', PyStr ''Issue'')]
              else
                (let hour_counts = value_counts_normalized (map hour_of parsed);
                     pattern_score =
                       np_round2 (fl_mul (fl_sub (Fin 1) (series_std 1 hour_counts)) (Fin 100))
                 in Inr [(''pattern_score_%'', PyFloat pattern_score),
                         (''status'', PyStr (if fl_lt pattern_score (Fin 75)
                                             then ''Issue'' else ''OK''))])))"

definition temporal_pattern ::
  "parser \<Rightarrow> table \<Rightarrow> string list \<Rightarrow> pyerr + (string \<times> pydict) list" where
  "temporal_pattern parse df datetime_columns =
     for_each_col (temporal_pattern_col parse df) datetime_columns []"

section \<open>Core quality: timeliness\<close>

text \<open>
  \<open>timeliness\<close> assigns \<open>df[col] = pd.to_datetime(df[col], errors='ignore')\<close>: the caller's
  table is part of the state, and the model returns it.  With \<open>errors='ignore'\<close> a column
  with a cell that does not parse comes back as it was.  The test of the dtype holds for
  the columns of timestamps and missing cells.  The gaps are those of the sorted
  timestamps: \<open>sort_values\<close> puts the missing cells last, and their differences are dropped.
\<close>

definition coerce_cell :: "parser \<Rightarrow> cell \<Rightarrow> cell" where
  "coerce_cell parse x = (case to_timestamp parse x of None \<Rightarrow> Null | Some t \<Rightarrow> Stamp t)"

definition to_datetime_ignore :: "parser \<Rightarrow> cell list \<Rightarrow> cell list" where
  "to_datetime_ignore parse c =
     (if list_all (\<lambda>x. isnull x \<or> to_timestamp parse x \<noteq> None) c
      then map (coerce_cell parse) c else c)"

fun is_datetime_cell :: "cell \<Rightarrow> bool" where
  "is_datetime_cell Null = True"
| "is_datetime_cell (Stamp _) = True"
| "is_datetime_cell _ = False"

definition is_datetime64 :: "cell list \<Rightarrow> bool" where
  "is_datetime64 c = list_all is_datetime_cell c"

definition df_setitem :: "table \<Rightarrow> string \<Rightarrow> cell list \<Rightarrow> table" where
  "df_setitem df col c =
     df\<lparr>columns := map (\<lambda>p. if fst p = col then (col, c) else p) (columns df)\<rparr>"

fun stamps_of :: "cell list \<Rightarrow> int list" where
  "stamps_of [] = []"
| "stamps_of (Stamp t # cs) = t # stamps_of cs"
| "stamps_of (_ # cs) = stamps_of cs"

definition timeliness_entry :: "cell list \<Rightarrow> pydict option" where
  "timeliness_entry c =
     (if is_datetime64 c then
        (let gaps = gaps_seconds (sort (stamps_of c))
         in if gaps \<noteq> [] then
              (let median_gap = series_median gaps;
                   large_gaps = filter (\<lambda>g. fl_gt (Fin g) (fl_mul median_gap (Fin 3))) gaps
               in Some [(''large_gaps'', PyInt (int (length large_gaps))),
                        (''status'', PyStr (if 0 < length large_gaps
                                            then ''Issue'' else ''OK''))])
            else None)
      else None)"

fun timeliness_loop ::
  "parser \<Rightarrow> table \<Rightarrow> string list \<Rightarrow> (string \<times> pydict) list
     \<Rightarrow> (pyerr + (string \<times> pydict) list) \<times> table" where
  "timeliness_loop parse df [] result = (Inr result, df)"
| "timeliness_loop parse df (col # cols) result =
     (case df_getitem df col of
        Inl e \<Rightarrow> (Inl e, df)
      | Inr c \<Rightarrow>
          (let c' = to_datetime_ignore parse c;
               df' = df_setitem df col c'
           in case timeliness_entry c' of
                Some entry \<Rightarrow> timeliness_loop parse df' cols (dict_set result col entry)
              | None \<Rightarrow> timeliness_loop parse df' cols result))"

definition timeliness ::
  "parser \<Rightarrow> table \<Rightarrow> string list \<Rightarrow> (pyerr + (string \<times> pydict) list) \<times> table" where
  "timeliness parse df datetime_columns = timeliness_loop parse df datetime_columns []"

section \<open>Precision quality\<close>

text \<open>
  \<open>_convert_to_python_types\<close> walks a result and replaces a float that is NaN or infinite
  by \<open>None\<close>.
\<close>

fun convert_to_python_types :: "pyval \<Rightarrow> pyval" where
  "convert_to_python_types (PyFloat v) = (if is_finite v then PyFloat v else PyNone)"
| "convert_to_python_types (PyList xs) = PyList (map convert_to_python_types xs)"
| "convert_to_python_types v = v"

definition convert_dict :: "pydict \<Rightarrow> pydict" where
  "convert_dict d = map (\<lambda>kv. (fst kv, convert_to_python_types (snd kv))) d"

definition convert_result :: "(string \<times> pydict) list \<Rightarrow> (string \<times> pydict) list" where
  "convert_result r = map (\<lambda>kv. (fst kv, convert_dict (snd kv))) r"

text \<open>
  The per-column loop of the precision service: the body of the loop stands in
  \<open>try ... except Exception as e\<close>, and the handler stores the error as the column's entry.
\<close>

definition error_entry :: "pyerr \<Rightarrow> pydict" where
  "error_entry e = [(''error'', PyStr (err_str e)), (''status'', PyStr ''Error'')]"

fun for_each_col_try ::
  "(string \<Rightarrow> pyerr + pydict) \<Rightarrow> string list \<Rightarrow> (string \<times> pydict) list
     \<Rightarrow> (string \<times> pydict) list" where
  "for_each_col_try body [] result = result"
| "for_each_col_try body (col # cols) result =
     for_each_col_try body cols
       (dict_set result col (case body col of Inl e \<Rightarrow> error_entry e | Inr entry \<Rightarrow> entry))"

text \<open>
  \<open>decimal_precision\<close> counts the digits after the point in \<open>str(x)\<close>.  Python's \<open>str\<close> of a
  number is a parameter of the model.  \<open>x.split(".")[1]\<close> is the text between the first
  point and the next one.
\<close>

definition dropna :: "cell list \<Rightarrow> cell list" where
  "dropna c = filter (\<lambda>x. \<not> isnull x) c"

definition decimal_places :: "string \<Rightarrow> nat" where
  "decimal_places s =
     (if CHR ''.'' \<in> set s
      then length (takeWhile (\<lambda>ch. ch \<noteq> CHR ''.'') (tl (dropWhile (\<lambda>ch. ch \<noteq> CHR ''.'') s)))
      else 0)"

definition decimal_precision_col ::
  "(cell \<Rightarrow> string) \<Rightarrow> table \<Rightarrow> string \<Rightarrow> pyerr + pydict" where
  "decimal_precision_col str df col =
     (case df_getitem df col of
        Inl e \<Rightarrow> Inl e
      | Inr c \<Rightarrow>
          (let clean_col = dropna c
           in if clean_col = []
              then Inr [(''unique_decimal_counts'', PyList []), (''status'', PyStr ''No data'')]
              else
                (let decimals = map (\<lambda>x. decimal_places (str x)) clean_col;
                     unique_decimal_counts = sort (remdups decimals)
                 in Inr [(''unique_decimal_counts'',
                            PyList (map (\<lambda>n. PyInt (int n)) unique_decimal_counts)),
                         (''status'', PyStr (if 3 < length unique_decimal_counts
                                             then ''Issue'' else ''OK''))])))"

definition decimal_precision ::
  "(cell \<Rightarrow> string) \<Rightarrow> table \<Rightarrow> string list \<Rightarrow> (string \<times> pydict) list" where
  "decimal_precision str df numeric_columns =
     convert_result (for_each_col_try (decimal_precision_col str df) numeric_columns [])"

text \<open>
  \<open>calculation_accuracy\<close>.  \<open>base_cols\<close> defaults to \<open>None\<close>.  The two checks of the
  configuration return an error dictionary; everything after them stands in a handler, so
  the operation returns a dictionary on every input.  The message for missing columns
  formats the list of their names: Python writes a list as the \<open>repr\<close> of its entries,
  separated by a comma and a space, between brackets.  The \<open>repr\<close> of a string (its choice of
  quotes, its escapes) belongs to Python and is a parameter of the model.
\<close>

definition list_repr :: "(string \<Rightarrow> string) \<Rightarrow> string list \<Rightarrow> string" where
  "list_repr repr xs =
     ''['' @ concat (map (\<lambda>p. (if fst p = 0 then [] else '', '') @ repr (snd p))
                       (zip [0..<length xs] xs)) @ '']''"

text \<open>
  \<open>df[base_cols].dropna()\<close> keeps the rows without a missing cell in the three columns,
  \<open>np.isclose(x, y, atol=0.01)\<close> is \<open>|x - y| \<le> 0.01 + 1e-5 * |y|\<close>, and arithmetic on a cell that
  is not a number raises.  The sum and the comparison are taken in exact arithmetic; numpy
  adds 64-bit integers with wrap-around and binary64 numbers with rounding, which agrees
  with the exact sum on the columns that the theorems below admit.  The three names are
  looked up one by one; for a list that names a column twice pandas selects a frame instead
  of a series, which the model does not follow.
\<close>

fun row_isnull :: "cell \<times> cell \<times> cell \<Rightarrow> bool" where
  "row_isnull (a, b, c) = (isnull a \<or> isnull b \<or> isnull c)"

fun row_close :: "cell \<times> cell \<times> cell \<Rightarrow> pyerr + bool" where
  "row_close (Num a, Num b, Num c) = Inr (\<bar>a + b - c\<bar> \<le> 1 / 100 + 1 / 100000 * \<bar>c\<bar>)"
| "row_close _ = Inl (TypeError ''unsupported operand type'')"

definition calculation_accuracy_body :: "cell list \<Rightarrow> cell list \<Rightarrow> cell list \<Rightarrow> pydict" where
  "calculation_accuracy_body a b c =
     (let clean_df = filter (\<lambda>r. \<not> row_isnull r) (zip a (zip b c))
      in if clean_df = []
         then [(''accuracy_%'', PyFloat (Fin 0)), (''status'', PyStr ''No data'')]
         else
           (case collect (map row_close clean_df) of
              Inl e \<Rightarrow> error_entry e
            | Inr flags \<Rightarrow>
                (let valid = fl_mul (bool_mean flags) (Fin 100)
                 in convert_dict
                      [(''accuracy_%'', PyFloat (np_round2 valid)),
                       (''status'', PyStr (if fl_lt valid (Fin 92) then ''Issue'' else ''OK''))])))"

definition calculation_accuracy ::
  "(string \<Rightarrow> string) \<Rightarrow> table \<Rightarrow> string list option \<Rightarrow> pydict" where
  "calculation_accuracy repr df base_cols =
     (case base_cols of
        None \<Rightarrow>
          [(''error'', PyStr ''Provide exactly 3 columns: [a, b, c] where c should equal a+b'')]
      | Some cols \<Rightarrow>
          (if cols = [] \<or> length cols \<noteq> 3
           then [(''error'',
                  PyStr ''Provide exactly 3 columns: [a, b, c] where c should equal a+b'')]
           else
             (let missing = filter (\<lambda>c. \<not> col_in c df) cols
              in if missing \<noteq> []
                 then [(''error'', PyStr (''Missing columns: '' @ list_repr repr missing))]
                 else
                   (case df_getitem df (cols ! 0) of
                      Inl e \<Rightarrow> error_entry e
                    | Inr a \<Rightarrow>
                        (case df_getitem df (cols ! 1) of
                           Inl e \<Rightarrow> error_entry e
                         | Inr b \<Rightarrow>
                             (case df_getitem df (cols ! 2) of
                                Inl e \<Rightarrow> error_entry e
                              | Inr c \<Rightarrow> calculation_accuracy_body a b c))))))"

section \<open>Statistical quality: outlier score\<close>

text \<open>
  \<open>series.quantile(q)\<close> skips missing cells, interpolates linearly between the two
  neighbours of position \<open>(n - 1) q\<close> in the sorted values, and is NaN on an empty series.
  \<open>len(outliers) / len(df)\<close> divides two Python integers: it raises on a table without rows.
  The loop has no handler.
\<close>

definition quantile :: "real \<Rightarrow> real list \<Rightarrow> fl" where
  "quantile q vals =
     (if vals = [] then NaN
      else
        (let s = sort vals;
             pos = (real (length s) - 1) * q;
             lo = nat \<lfloor>pos\<rfloor>;
             frac = pos - real lo
         in if lo + 1 < length s then Fin (s ! lo + (s ! (lo + 1) - s ! lo) * frac)
            else Fin (s ! (length s - 1))))"

definition is_outlier :: "fl \<Rightarrow> fl \<Rightarrow> cell \<Rightarrow> bool" where
  "is_outlier lower upper x =
     (case x of Num v \<Rightarrow> fl_lt (Fin v) lower \<or> fl_gt (Fin v) upper | _ \<Rightarrow> False)"

definition outlier_score_col :: "table \<Rightarrow> string \<Rightarrow> pyerr + pydict" where
  "outlier_score_col df col =
     (case df_getitem df col of
        Inl e \<Rightarrow> Inl e
      | Inr c \<Rightarrow>
          (case numeric_values c of
             Inl e \<Rightarrow> Inl e
           | Inr vals \<Rightarrow>
               (let Q1 = quantile (25 / 100) vals;
                    Q3 = quantile (75 / 100) vals;
                    IQR = fl_sub Q3 Q1;
                    lower = fl_sub Q1 (fl_mul (Fin (15 / 10)) IQR);
                    upper = fl_add Q3 (fl_mul (Fin (15 / 10)) IQR);
                    outliers = filter (is_outlier lower upper) c
                in if nrows df = 0 then Inl (ZeroDivisionError ''division by zero'')
                   else
                     (let percent = real (length outliers) / real (nrows df) * 100
                      in Inr [(''outlier_%'', PyFloat (Fin (round2 percent))),
                              (''status'', PyStr (if 5 < percent then ''Issue'' else ''OK''))]))))"

definition outlier_score :: "table \<Rightarrow> string list \<Rightarrow> pyerr + (string \<times> pydict) list" where
  "outlier_score df numeric_cols = for_each_col (outlier_score_col df) numeric_cols []"

section \<open>The quantities the specification names\<close>




text \<open>
  ``C equals A plus B exactly on every row'': every row holds three numbers, the third the
  sum of the other two.
\<close>

fun row_sums :: "cell \<Rightarrow> cell \<Rightarrow> cell \<Rightarrow> bool" where
  "row_sums (Num x) (Num y) (Num z) = (z = x + y)"
| "row_sums _ _ _ = False"

definition sums_exactly :: "table \<Rightarrow> string \<Rightarrow> string \<Rightarrow> string \<Rightarrow> bool" where
  "sums_exactly df ca cb cc =
     (case (df_getitem df ca, df_getitem df cb, df_getitem df cc) of
        (Inr a, Inr b, Inr c) \<Rightarrow>
          list_all (\<lambda>i. row_sums (nth_cell a i) (nth_cell b i) (nth_cell c i)) [0..<nrows df]
      | _ \<Rightarrow> False)"

text \<open>
  The numbers of the named columns are at most \<open>2\<^sup>5\<^sup>3\<close> in magnitude: a 64-bit integer of
  that size is a binary64 number, and the sum of two of them does not wrap around.
\<close>

fun exact_cell :: "cell \<Rightarrow> bool" where
  "exact_cell (Num v) = (\<bar>v\<bar> \<le> 9007199254740992)"
| "exact_cell _ = True"

definition exact_columns :: "table \<Rightarrow> string list \<Rightarrow> bool" where
  "exact_columns df cols =
     list_all (\<lambda>col. case df_getitem df col of
                        Inr c \<Rightarrow> list_all exact_cell c | Inl e \<Rightarrow> False) cols"

text \<open>
  The \<open>repr\<close> of a string of letters and digits, for the examples: the string between
  single quotes.
\<close>

definition quoted :: "string \<Rightarrow> string" where
  "quoted s = [CHR 0x27] @ s @ [CHR 0x27]"

text \<open>Every row has a missing cell in at least one of the named columns.\<close>

definition some_missing_in_every_row :: "table \<Rightarrow> string list \<Rightarrow> bool" where
  "some_missing_in_every_row df cols =
     list_all (\<lambda>i. list_ex (\<lambda>col. case df_getitem df col of
                                      Inr c \<Rightarrow> isnull (nth_cell c i) | Inl e \<Rightarrow> False) cols)
              [0..<nrows df]"

text \<open>
  Three columns without rows, and the table of the specification's example, where
  \<open>c = a + b\<close> on each of four rows.
\<close>

definition empty_abc :: table where
  "empty_abc = \<lparr>nrows = 0, columns = [(''a'', []), (''b'', []), (''c'', [])]\<rparr>"

definition abc_example :: table where
  "abc_example = \<lparr>nrows = 4, columns =
      [(''a'', [Num 1, Num 2, Num 3, Num 4]),
       (''b'', [Num 10, Num 20, Num 30, Num 40]),
       (''c'', [Num 11, Num 22, Num 33, Num 44])]\<rparr>"

text \<open>A numeric column: present, and every cell a number or missing.\<close>

definition numeric_column :: "table \<Rightarrow> string \<Rightarrow> bool" where
  "numeric_column df col =
     (case df_getitem df col of
        Inr c \<Rightarrow> (case numeric_values c of Inr vals \<Rightarrow> True | Inl e \<Rightarrow> False)
      | Inl e \<Rightarrow> False)"

text \<open>
  The rule count of \<open>business_rule_compliance\<close>: the configured frequency and power-factor
  columns that the table has.  A ratio lies in \<open>[0, 1]\<close>.  The power-factor cells out of
  range are the numbers below \<open>-1\<close> or above \<open>1\<close>, counted over the configured power-factor
  columns that the table has, a column as often as it is configured.
\<close>

definition n_rules :: "config \<Rightarrow> table \<Rightarrow> nat" where
  "n_rules cfg df =
     length (filter (\<lambda>col. col_in col df) (frequency_columns cfg)) +
     length (filter (\<lambda>col. col_in col df) (powerfactor_columns cfg))"

fun out_of_range :: "cell \<Rightarrow> bool" where
  "out_of_range (Num v) = (v < - 1 \<or> 1 < v)"
| "out_of_range _ = False"

definition out_of_range_cells :: "table \<Rightarrow> string \<Rightarrow> nat" where
  "out_of_range_cells df col =
     (case df_getitem df col of Inr c \<Rightarrow> length (filter out_of_range c) | Inl e \<Rightarrow> 0)"

definition pf_out_of_range :: "config \<Rightarrow> table \<Rightarrow> nat" where
  "pf_out_of_range cfg df =
     sum_list (map (out_of_range_cells df)
                 (filter (\<lambda>col. col_in col df) (powerfactor_columns cfg)))"

definition n_freq_rules :: "config \<Rightarrow> table \<Rightarrow> nat" where
  "n_freq_rules cfg df = length (filter (\<lambda>col. col_in col df) (frequency_columns cfg))"

definition compliance_in_unit_interval :: "pydict \<Rightarrow> bool" where
  "compliance_in_unit_interval r =
     (case dict_get r ''compliance_score'' of
        Some (PyFloat (Fin s)) \<Rightarrow> 0 \<le> s \<and> s \<le> 1
      | _ \<Rightarrow> False)"

text \<open>
  One power-factor column with two cells out of range; and a table with a steady frequency
  column and one power-factor cell out of range.
\<close>

definition pf_config :: config where
  "pf_config = \<lparr>frequency_columns = [], powerfactor_columns = [''pf''], domain_rules = []\<rparr>"

definition pf_table :: table where
  "pf_table = \<lparr>nrows = 2, columns = [(''pf'', [Num 2, Num 2])]\<rparr>"

definition grid_config :: config where
  "grid_config = \<lparr>frequency_columns = [''hz''], powerfactor_columns = [''pf''], domain_rules = []\<rparr>"

definition grid_table :: table where
  "grid_table = \<lparr>nrows = 2, columns = [(''hz'', [Num 50, Num 50]), (''pf'', [Num (9 / 10), Num 2])]\<rparr>"

text \<open>
  The rule of the specification's example, \<open>status: [A, B]\<close>, and a table for it; the same
  allowed values written as a list of three entries; and a column that holds \<open>AB\<close>, a
  string that is neither \<open>A\<close> nor \<open>B\<close> and lies between them in the order of strings.
\<close>

definition status_rules :: config where
  "status_rules = \<lparr>frequency_columns = [], powerfactor_columns = [],
                    domain_rules = [(''status'', [Text ''A'', Text ''B''])]\<rparr>"

definition status_rules_of_three :: config where
  "status_rules_of_three = \<lparr>frequency_columns = [], powerfactor_columns = [],
                    domain_rules = [(''status'', [Text ''A'', Text ''B'', Text ''B''])]\<rparr>"

definition status_table :: table where
  "status_table = \<lparr>nrows = 2, columns = [(''status'', [Text ''A'', Text ''C''])]\<rparr>"

definition status_between :: table where
  "status_between = \<lparr>nrows = 2, columns = [(''status'', [Text ''A'', Text ''AB''])]\<rparr>"







text \<open>
  A reading of cells that recognises no string and no number, so that only timestamps
  count.  A column with four regular timestamps, one string and one long gap; and a column
  that repeats a timestamp, so that the median gap is zero.
\<close>

definition no_parser :: parser where
  "no_parser x = None"



text \<open>
  Two tables agree after parsing when they have the same columns and each column parses to
  the same cells in both.  A column is parsed in place when parsing leaves it as it is.
\<close>

definition same_parsed :: "parser \<Rightarrow> table \<Rightarrow> table \<Rightarrow> bool" where
  "same_parsed parse dfa dfb \<longleftrightarrow>
     (\<forall>col. case df_getitem dfa col of
              Inl e \<Rightarrow> df_getitem dfb col = Inl e
            | Inr a \<Rightarrow> (\<exists>b. df_getitem dfb col = Inr b \<and>
                          to_datetime_ignore parse b = to_datetime_ignore parse a))"

definition parsed_in_place :: "parser \<Rightarrow> table \<Rightarrow> string \<Rightarrow> bool" where
  "parsed_in_place parse df col \<longleftrightarrow>
     (\<exists>c. df_getitem df col = Inr c \<and> to_datetime_ignore parse c = c)"

text \<open>
  The whole days between a clock reading and the latest timestamp of a column, as
  \<open>freshness_score\<close> counts them.
\<close>

definition days_since :: "parser \<Rightarrow> int \<Rightarrow> table \<Rightarrow> string \<Rightarrow> int option" where
  "days_since parse now df col =
     (case df_getitem df col of
        Inr c \<Rightarrow> map_option (\<lambda>latest. td_days (now - latest))
                  (series_max (to_datetime_dropna parse c))
      | Inl e \<Rightarrow> None)"

text \<open>
  A reading of cells that knows two dates, and a table of strings with these dates before
  and after \<open>timeliness\<close> has run on it.
\<close>

definition day_parser :: parser where
  "day_parser x =
     (case x of
        Text s \<Rightarrow> (if s = ''1970-01-01'' then Some 0
                   else if s = ''1970-01-02'' then Some 86400000000000 else None)
      | _ \<Rightarrow> None)"

definition dated_table :: table where
  "dated_table = \<lparr>nrows = 3, columns =
      [(''t'', [Text ''1970-01-02'', Text ''1970-01-01'', Null])]\<rparr>"

definition dated_table_parsed :: table where
  "dated_table_parsed = \<lparr>nrows = 3, columns =
      [(''t'', [Stamp 86400000000000, Stamp 0, Null])]\<rparr>"

text \<open>
  The contract on results: every float in a result is finite.
\<close>

fun finite_leaf :: "pyval \<Rightarrow> bool" where
  "finite_leaf (PyFloat v) = is_finite v"
| "finite_leaf (PyList xs) = list_all finite_leaf xs"
| "finite_leaf _ = True"

definition finite_leaves :: "pydict \<Rightarrow> bool" where
  "finite_leaves d = list_all (\<lambda>kv. finite_leaf (snd kv)) d"

text \<open>
  A table with a header and no rows, a table with a single timestamp, and a table with one
  numeric column.
\<close>

definition no_rows :: table where
  "no_rows = \<lparr>nrows = 0, columns = [(''a'', [])]\<rparr>"

definition one_stamp :: table where
  "one_stamp = \<lparr>nrows = 1, columns = [(''t'', [Stamp 0])]\<rparr>"

definition readings :: table where
  "readings = \<lparr>nrows = 2, columns = [(''y'', [Num 1, Num 2])]\<rparr>"

section \<open>Rounding and counting\<close>

lemma rint_lower: "real_of_int (rint x) - 1 / 2 \<le> x"
  unfolding rint_def Let_def by (auto; linarith)

lemma rint_upper: "x \<le> real_of_int (rint x) + 1 / 2"
  unfolding rint_def Let_def by (auto; linarith)

lemma rint_mono: "x \<le> y \<Longrightarrow> rint x \<le> rint y"
proof (rule ccontr)
  assume xy: "x \<le> y" and "\<not> rint x \<le> rint y"
  then have "rint y + 1 \<le> rint x" by simp
  then have "real_of_int (rint y) + 1 \<le> real_of_int (rint x)" by linarith
  with rint_lower [of x] rint_upper [of y] have "y \<le> x" by linarith
  with xy have "x = y" by simp
  with \<open>\<not> rint x \<le> rint y\<close> show False by simp
qed

lemma rint_of_int: "rint (of_int n) = n"
  by (simp add: rint_def)

lemma round2_mono: "x \<le> y \<Longrightarrow> round2 x \<le> round2 y"
  unfolding round2_def using rint_mono [of "x * 100" "y * 100"] by (simp add: divide_right_mono)


lemma round2_0: "round2 0 = 0"
  using rint_of_int [of 0] by (simp add: round2_def)

lemma round2_100: "round2 100 = 100"
  using rint_of_int [of 10000] by (simp add: round2_def)

lemma round2_1: "round2 1 = 1"
  using rint_of_int [of 100] by (simp add: round2_def)

lemma round2_95: "round2 (19 / 20) = 19 / 20"
  using rint_of_int [of 95] by (simp add: round2_def)









section \<open>Columns, rows and loops\<close>

lemma wf_getitem_length:
  "wf_table df \<Longrightarrow> df_getitem df col = Inr c \<Longrightarrow> length c = nrows df"
  by (auto simp: wf_table_def df_getitem_def list_all_iff split: option.splits dest!: map_of_SomeD)

lemma col_in_getitem: "col_in col df \<Longrightarrow> \<exists>c. df_getitem df col = Inr c"
  by (auto simp: col_in_def df_getitem_def split: option.splits simp: map_of_eq_None_iff)

lemma getitem_col_in: "df_getitem df col = Inr c \<Longrightarrow> col_in col df"
  by (auto simp: col_in_def df_getitem_def split: option.splits dest!: map_of_SomeD intro: rev_image_eqI)

lemma in_zip3:
  assumes "r \<in> set (zip a (zip b c))"
  shows "\<exists>i. i < length a \<and> i < length b \<and> i < length c \<and> r = (a ! i, b ! i, c ! i)"
proof -
  obtain x y z where r: "r = (x, y, z)" by (cases r) auto
  from assms r obtain i where "i < length a" "i < length (zip b c)" "x = a ! i" "(y, z) = zip b c ! i"
    by (auto simp: in_set_zip)
  then show ?thesis using r by auto
qed

lemma length3: "length cols = 3 \<Longrightarrow> \<exists>ca cb cc. cols = [ca, cb, cc]"
  by (auto simp: length_Suc_conv numeral_3_eq_3)

lemma collect_const:
  "(\<And>r. r \<in> set rs \<Longrightarrow> f r = Inr v) \<Longrightarrow> collect (map f rs) = Inr (map (\<lambda>_. v) rs)"
  by (induction rs) auto

lemma bool_mean_all_true: "rs \<noteq> [] \<Longrightarrow> bool_mean (map (\<lambda>_. True) rs) = Fin 1"
  by (simp add: bool_mean_def)

lemma upt_4: "[0..<4] = [0, 1, 2, 3]"
  by (simp add: upt_rec)

lemma dict_get_dict_set: "dict_get (dict_set d k v) k' = (if k' = k then Some v else dict_get d k')"
  by (induction d) (auto simp: dict_get_def)



lemma for_each_col_raises:
  "body col = Inl e \<Longrightarrow> (\<And>c. c \<in> set pre \<Longrightarrow> \<exists>x. body c = Inr x) \<Longrightarrow>
     for_each_col body (pre @ col # post) res = Inl e"
proof (induction pre arbitrary: res)
  case Nil
  then show ?case by simp
next
  case (Cons c pre)
  from Cons.prems(2) [of c] obtain x where x: "body c = Inr x" by auto
  from Cons.IH [OF Cons.prems(1), of "dict_set res c x"] Cons.prems(2)
  show ?case by (simp add: x)
qed

lemma series_lt_numeric:
  "numeric_values c = Inr vals \<Longrightarrow>
     series_lt c (Num k) = Inr (map (\<lambda>x. case x of Num v \<Rightarrow> v < k | _ \<Rightarrow> False) c)"
  unfolding series_lt_def
  by (induction c arbitrary: vals rule: numeric_values.induct) (auto split: sum.splits)

lemma series_gt_numeric:
  "numeric_values c = Inr vals \<Longrightarrow>
     series_gt c (Num k) = Inr (map (\<lambda>x. case x of Num v \<Rightarrow> k < v | _ \<Rightarrow> False) c)"
  unfolding series_gt_def
  by (induction c arbitrary: vals rule: numeric_values.induct) (auto split: sum.splits)

lemma freq_violations_bound:
  "(\<And>col. col \<in> set cols \<Longrightarrow> numeric_column df col) \<Longrightarrow>
     \<exists>fv. freq_violations df cols v = Inr (v + fv) \<and> fv \<le> length cols"
proof (induction cols arbitrary: v)
  case Nil
  then show ?case by simp
next
  case (Cons col cols)
  from Cons.prems [of col] obtain c vals where
    c: "df_getitem df col = Inr c" "numeric_values c = Inr vals"
    by (auto simp: numeric_column_def split: sum.splits)
  have rest: "\<And>k. k \<in> set cols \<Longrightarrow> numeric_column df k" using Cons.prems by simp
  show ?case
  proof (cases "series_std 1 vals \<noteq> NaN \<and> fl_gt (series_std 1 vals) (Fin (2 / 10))")
    case True
    from Cons.IH [OF rest, of "v + 1"] obtain fv where
      "freq_violations df cols (v + 1) = Inr (v + 1 + fv)" "fv \<le> length cols" by blast
    then have "freq_violations df (col # cols) v = Inr (v + (fv + 1)) \<and> fv + 1 \<le> length (col # cols)"
      using True c by (auto simp: Let_def)
    then show ?thesis by blast
  next
    case False
    from Cons.IH [OF rest, of v] obtain fv where
      "freq_violations df cols v = Inr (v + fv)" "fv \<le> length cols" by blast
    then have "freq_violations df (col # cols) v = Inr (v + fv) \<and> fv \<le> length (col # cols)"
      using False c by (auto simp: Let_def)
    then show ?thesis by blast
  qed
qed

lemma add_length_if: "(if xs \<noteq> [] then v + length xs else v) = v + length xs"
  by simp

lemma series_or_count:
  "length (filter (\<lambda>b. b) (series_or (map f c) (map g c))) = length (filter (\<lambda>x. f x \<or> g x) c)"
  by (induction c) (simp_all add: series_or_def)

lemma out_of_range_cases:
  "out_of_range x = ((case x of Num v \<Rightarrow> v < - 1 | _ \<Rightarrow> False) \<or> (case x of Num v \<Rightarrow> 1 < v | _ \<Rightarrow> False))"
  by (cases x) simp_all

lemma pf_violations_count:
  "(\<And>col. col \<in> set cols \<Longrightarrow> numeric_column df col) \<Longrightarrow>
     pf_violations df cols v = Inr (v + sum_list (map (out_of_range_cells df) cols))"
proof (induction cols arbitrary: v)
  case Nil
  then show ?case by simp
next
  case (Cons col cols)
  from Cons.prems [of col] obtain c vals where
    c: "df_getitem df col = Inr c" "numeric_values c = Inr vals"
    by (auto simp: numeric_column_def split: sum.splits)
  have rest: "\<And>k. k \<in> set cols \<Longrightarrow> numeric_column df k" using Cons.prems by simp
  let ?k = "length (filter out_of_range c)"
  have cnt: "length (filter (\<lambda>b. b)
               (series_or (map (\<lambda>x. case x of Num v \<Rightarrow> v < - 1 | _ \<Rightarrow> False) c)
                          (map (\<lambda>x. case x of Num v \<Rightarrow> 1 < v | _ \<Rightarrow> False) c))) = ?k"
    by (simp only: series_or_count flip: out_of_range_cases)
  have step: "pf_violations df (col # cols) v = pf_violations df cols (v + ?k)"
    using c(1) series_lt_numeric [OF c(2), of "- 1"] series_gt_numeric [OF c(2), of 1] cnt
    by (simp add: Let_def add_length_if)
  have "pf_violations df cols (v + ?k) =
          Inr (v + ?k + sum_list (map (out_of_range_cells df) cols))"
    by (rule Cons.IH [OF rest])
  moreover have "out_of_range_cells df col = ?k" by (simp add: out_of_range_cells_def c(1))
  ultimately show ?case using step by simp
qed

lemma rint_neg_100: "rint (- 99999900 / 1000001) = - 100"
proof -
  have "\<lfloor>- 99999900 / 1000001 :: real\<rfloor> = - 100" by (simp add: floor_eq_iff)
  then show ?thesis by (simp add: rint_def Let_def)
qed

section \<open>Completeness\<close>





section \<open>Calculation accuracy\<close>

text \<open>
  Claim C5, as the code has it.  \<open>calculation_accuracy\<close> returns the configuration error
  (a dictionary with the single key \<open>error\<close>) when no column list is given or the list does
  not have exactly three entries, and when one of three entries is not a column of the
  table, with a message that lists the absent names; nothing is raised.  Given three
  distinct columns of a table with at least one row, whose numbers are at most \<open>2\<^sup>5\<^sup>3\<close> in
  magnitude, where the third is exactly the sum of the first two on every row, it returns
  \<open>accuracy_% = 100.0\<close> with status \<open>OK\<close>.  Within that magnitude the sum that numpy takes
  and the third column round to the same binary64 number; beyond it 64-bit integers wrap
  around, and the statement does not cover them.
\<close>

theorem calculation_accuracy_config_and_exact:
  "((base_cols = None \<or> (\<exists>cols. base_cols = Some cols \<and> length cols \<noteq> 3)) \<longrightarrow>
      calculation_accuracy repr df base_cols =
        [(''error'', PyStr ''Provide exactly 3 columns: [a, b, c] where c should equal a+b'')])
   \<and> (length cols = 3 \<and> (\<exists>c\<in>set cols. \<not> col_in c df) \<longrightarrow>
      calculation_accuracy repr df (Some cols) =
        [(''error'', PyStr (''Missing columns: '' @ list_repr repr (filter (\<lambda>c. \<not> col_in c df) cols)))])
   \<and> (wf_table df \<and> 0 < nrows df \<and> distinct [ca, cb, cc] \<and> sums_exactly df ca cb cc \<and>
       exact_columns df [ca, cb, cc] \<longrightarrow>
      calculation_accuracy repr df (Some [ca, cb, cc]) =
        [(''accuracy_%'', PyFloat (Fin 100)), (''status'', PyStr ''OK'')])"
proof (intro conjI impI)
  assume "base_cols = None \<or> (\<exists>cols. base_cols = Some cols \<and> length cols \<noteq> 3)"
  then show "calculation_accuracy repr df base_cols =
        [(''error'', PyStr ''Provide exactly 3 columns: [a, b, c] where c should equal a+b'')]"
    by (auto simp: calculation_accuracy_def)
next
  assume a: "length cols = 3 \<and> (\<exists>c\<in>set cols. \<not> col_in c df)"
  then have "filter (\<lambda>c. \<not> col_in c df) cols \<noteq> []"
    by (auto simp: filter_empty_conv)
  with a show "calculation_accuracy repr df (Some cols) =
        [(''error'', PyStr (''Missing columns: '' @ list_repr repr (filter (\<lambda>c. \<not> col_in c df) cols)))]"
    by (auto simp: calculation_accuracy_def Let_def)
next
  assume h: "wf_table df \<and> 0 < nrows df \<and> distinct [ca, cb, cc] \<and> sums_exactly df ca cb cc \<and>
       exact_columns df [ca, cb, cc]"
  then obtain a b c where
    g: "df_getitem df ca = Inr a" "df_getitem df cb = Inr b" "df_getitem df cc = Inr c"
    and rows: "list_all (\<lambda>i. row_sums (nth_cell a i) (nth_cell b i) (nth_cell c i)) [0..<nrows df]"
    by (auto simp: sums_exactly_def split: sum.splits)
  have la: "length a = nrows df" and lb: "length b = nrows df" and lc: "length c = nrows df"
    using h g by (auto dest: wf_getitem_length)
  let ?rows = "zip a (zip b c)"
  have each: "\<not> row_isnull r \<and> row_close r = Inr True" if "r \<in> set ?rows" for r
  proof -
    from in_zip3 [OF that] obtain i where i: "i < nrows df" "r = (a ! i, b ! i, c ! i)"
      using la by auto
    from rows i(1) have "row_sums (a ! i) (b ! i) (c ! i)"
      using la lb lc by (simp add: list_all_iff nth_cell_def)
    then obtain x y where "a ! i = Num x" "b ! i = Num y" "c ! i = Num (x + y)"
      by (cases "a ! i"; cases "b ! i"; cases "c ! i") auto
    then show ?thesis using i by simp
  qed
  then have clean: "filter (\<lambda>r. \<not> row_isnull r) ?rows = ?rows"
    by (simp add: filter_id_conv)
  have ne: "?rows \<noteq> []" using h la lb lc by (cases a; cases b; cases c) auto
  have coll: "collect (map row_close ?rows) = Inr (map (\<lambda>_. True) ?rows)"
    using each by (intro collect_const) simp
  have r100: "round2 100 = 100" by (rule round2_100)
  have present: "filter (\<lambda>c. \<not> col_in c df) [ca, cb, cc] = []"
    using g by (auto dest: getitem_col_in)
  have body: "calculation_accuracy_body a b c =
      [(''accuracy_%'', PyFloat (Fin 100)), (''status'', PyStr ''OK'')]"
    unfolding calculation_accuracy_body_def Let_def clean
    using ne by (simp add: coll bool_mean_all_true r100 convert_dict_def del: map_eq_conv)
  show "calculation_accuracy repr df (Some [ca, cb, cc]) =
        [(''accuracy_%'', PyFloat (Fin 100)), (''status'', PyStr ''OK'')]"
    unfolding calculation_accuracy_def using present by (simp add: g body)
qed

text \<open>
  The claim as stated asks nothing of the number of rows.  On a table without rows the sum
  holds on every row, and the operation answers \<open>No data\<close> with \<open>accuracy_% = 0.0\<close>.
\<close>

theorem calculation_accuracy_empty_counterexample:
  "wf_table empty_abc \<and> sums_exactly empty_abc ''a'' ''b'' ''c'' \<and>
   calculation_accuracy quoted empty_abc (Some [''a'', ''b'', ''c'']) =
     [(''accuracy_%'', PyFloat (Fin 0)), (''status'', PyStr ''No data'')] \<and>
   calculation_accuracy quoted empty_abc (Some [''a'', ''b'', ''c'']) \<noteq>
     [(''accuracy_%'', PyFloat (Fin 100)), (''status'', PyStr ''OK'')]"
  by (simp add: empty_abc_def wf_table_def sums_exactly_def df_getitem_def
        calculation_accuracy_def calculation_accuracy_body_def col_in_def)

text \<open>
  The theorem at the example of the specification, and at a list of two columns and a list
  that names an absent column.
\<close>

theorem calculation_accuracy_config_and_exact_witness:
  "wf_table abc_example \<and> 0 < nrows abc_example \<and> sums_exactly abc_example ''a'' ''b'' ''c'' \<and>
   exact_columns abc_example [''a'', ''b'', ''c''] \<and>
   calculation_accuracy quoted abc_example (Some [''a'', ''b'', ''c'']) =
     [(''accuracy_%'', PyFloat (Fin 100)), (''status'', PyStr ''OK'')] \<and>
   calculation_accuracy quoted abc_example (Some [''a'', ''b'']) =
     [(''error'', PyStr ''Provide exactly 3 columns: [a, b, c] where c should equal a+b'')] \<and>
   calculation_accuracy quoted abc_example (Some [''a'', ''x'', ''c'']) =
     [(''error'', PyStr (''Missing columns: ['' @ quoted ''x'' @ '']''))]"
proof -
  have wf: "wf_table abc_example" by (simp add: wf_table_def abc_example_def)
  have n: "0 < nrows abc_example" by (simp add: abc_example_def)
  have s: "sums_exactly abc_example ''a'' ''b'' ''c''"
    by (simp add: sums_exactly_def abc_example_def df_getitem_def nth_cell_def upt_4)
  have d: "distinct [''a'', ''b'', ''c'']" by simp
  have x: "exact_columns abc_example [''a'', ''b'', ''c'']"
    by (simp add: exact_columns_def abc_example_def df_getitem_def)
  note t = calculation_accuracy_config_and_exact
  have 1: "calculation_accuracy quoted abc_example (Some [''a'', ''b'', ''c'']) =
     [(''accuracy_%'', PyFloat (Fin 100)), (''status'', PyStr ''OK'')]"
    using t [where df = abc_example and ca = "''a''" and cb = "''b''" and cc = "''c''"
          and repr = quoted,
        THEN conjunct2, THEN conjunct2] wf n s d x
    by blast
  have 2: "calculation_accuracy quoted abc_example (Some [''a'', ''b'']) =
     [(''error'', PyStr ''Provide exactly 3 columns: [a, b, c] where c should equal a+b'')]"
    using t [where base_cols = "Some [''a'', ''b'']" and df = abc_example and repr = quoted,
        THEN conjunct1] by simp
  have 3: "calculation_accuracy quoted abc_example (Some [''a'', ''x'', ''c'']) =
     [(''error'', PyStr (''Missing columns: ['' @ quoted ''x'' @ '']''))]"
    using t [where df = abc_example and cols = "[''a'', ''x'', ''c'']" and repr = quoted,
        THEN conjunct2, THEN conjunct1]
    by (simp add: col_in_def abc_example_def list_repr_def upt_rec)
  from wf n s x 1 2 3 show ?thesis by blast
qed

text \<open>
  Claim C10.  Called with exactly three column names, all present, on a table where every
  row has a missing cell in one of the three columns, \<open>calculation_accuracy\<close> returns
  \<open>accuracy_% = 0.0\<close> with status \<open>No data\<close>: neither the configuration error nor the
  error entry of the handler.
\<close>

theorem calculation_accuracy_no_data:
  assumes wf: "wf_table df"
    and len: "length cols = 3"
    and present: "\<forall>col\<in>set cols. col_in col df"
    and miss: "some_missing_in_every_row df cols"
  shows "calculation_accuracy repr df (Some cols) =
           [(''accuracy_%'', PyFloat (Fin 0)), (''status'', PyStr ''No data'')]"
proof -
  from len obtain ca cb cc where cols: "cols = [ca, cb, cc]" using length3 by blast
  from present cols obtain a b c where
    g: "df_getitem df ca = Inr a" "df_getitem df cb = Inr b" "df_getitem df cc = Inr c"
    using col_in_getitem by (metis list.set_intros(1,2))
  have la: "length a = nrows df" and lb: "length b = nrows df" and lc: "length c = nrows df"
    using wf g by (auto dest: wf_getitem_length)
  have "row_isnull r" if "r \<in> set (zip a (zip b c))" for r
  proof -
    from in_zip3 [OF that] obtain i where i: "i < nrows df" "r = (a ! i, b ! i, c ! i)"
      using la by auto
    from miss i(1) have "isnull (nth_cell a i) \<or> isnull (nth_cell b i) \<or> isnull (nth_cell c i)"
      by (simp add: some_missing_in_every_row_def list_all_iff cols g)
    then show ?thesis using i la lb lc by (simp add: nth_cell_def)
  qed
  then have "filter (\<lambda>r. \<not> row_isnull r) (zip a (zip b c)) = []"
    by (simp add: filter_empty_conv)
  moreover have "filter (\<lambda>c. \<not> col_in c df) cols = []"
    using present by (simp add: filter_empty_conv)
  ultimately show ?thesis
    using len by (simp add: calculation_accuracy_def calculation_accuracy_body_def cols g)
qed

text \<open>The theorem at a table of two rows, each with one missing cell.\<close>

theorem calculation_accuracy_no_data_witness:
  "wf_table \<lparr>nrows = 2, columns = [(''a'', [Num 1, Null]), (''b'', [Null, Num 2]), (''c'', [Num 3, Num 4])]\<rparr> \<and>
   some_missing_in_every_row
     \<lparr>nrows = 2, columns = [(''a'', [Num 1, Null]), (''b'', [Null, Num 2]), (''c'', [Num 3, Num 4])]\<rparr>
     [''a'', ''b'', ''c''] \<and>
   calculation_accuracy quoted
     \<lparr>nrows = 2, columns = [(''a'', [Num 1, Null]), (''b'', [Null, Num 2]), (''c'', [Num 3, Num 4])]\<rparr>
     (Some [''a'', ''b'', ''c'']) =
       [(''accuracy_%'', PyFloat (Fin 0)), (''status'', PyStr ''No data'')]"
proof -
  let ?df = "\<lparr>nrows = 2, columns = [(''a'', [Num 1, Null]), (''b'', [Null, Num 2]), (''c'', [Num 3, Num 4])]\<rparr>"
  have wf: "wf_table ?df" by (simp add: wf_table_def)
  have p: "\<forall>col\<in>set [''a'', ''b'', ''c'']. col_in col ?df" by (simp add: col_in_def)
  have up: "[0..<2] = [0, 1]" by (simp add: upt_rec)
  have m: "some_missing_in_every_row ?df [''a'', ''b'', ''c'']"
    by (simp add: some_missing_in_every_row_def df_getitem_def nth_cell_def up)
  show ?thesis
    using calculation_accuracy_no_data [OF wf _ p m, of quoted] wf m by simp
qed

section \<open>Business rule compliance\<close>

text \<open>
  Claim C6, as the code has it.  When the configured frequency and power-factor columns
  that the table has are numeric, \<open>business_rule_compliance\<close> returns.  Its count of
  violations is at most one for each frequency column, plus one for every power-factor cell
  out of range.  The compliance score is at most 1; it is at least 0 whenever the violations
  do not exceed the rule count, and at most 0 when they exceed it.  The status \<open>Issue\<close> comes
  with a score of at most \<open>0.95\<close>, the status \<open>OK\<close> with a score of at least \<open>0.95\<close>.  The
  statement fixes neither the verdict on a frequency column nor the last digit of the
  score, which depend on the rounding of the binary64 operations.
\<close>

theorem compliance_score_bounds:
  assumes "\<forall>col\<in>set (frequency_columns cfg @ powerfactor_columns cfg).
             col_in col df \<longrightarrow> numeric_column df col"
  shows "\<exists>fv s st.
           business_rule_compliance cfg df =
             Inr [(''rule_violations'', PyInt (int (fv + pf_out_of_range cfg df))),
                  (''compliance_score'', PyFloat (Fin s)),
                  (''status'', PyStr st)]
         \<and> fv \<le> n_freq_rules cfg df
         \<and> s \<le> 1
         \<and> (fv + pf_out_of_range cfg df \<le> n_rules cfg df \<longrightarrow> 0 \<le> s)
         \<and> (n_rules cfg df < fv + pf_out_of_range cfg df \<longrightarrow> s \<le> 0)
         \<and> (st = ''Issue'' \<and> s \<le> 95 / 100 \<or> st = ''OK'' \<and> 95 / 100 \<le> s)"
proof -
  let ?f = "filter (\<lambda>col. col_in col df) (frequency_columns cfg)"
  let ?p = "filter (\<lambda>col. col_in col df) (powerfactor_columns cfg)"
  let ?n = "real (n_rules cfg df) + 1 / 1000000"
  from assms have "\<And>col. col \<in> set ?f \<Longrightarrow> numeric_column df col" by auto
  then have "\<exists>fv. freq_violations df ?f 0 = Inr (0 + fv) \<and> fv \<le> length ?f"
    by (rule freq_violations_bound)
  then obtain fv where fv: "freq_violations df ?f 0 = Inr fv" "fv \<le> length ?f"
    by (auto simp only: add_0)
  from assms have "\<And>col. col \<in> set ?p \<Longrightarrow> numeric_column df col" by auto
  then have "pf_violations df ?p fv = Inr (fv + sum_list (map (out_of_range_cells df) ?p))"
    by (rule pf_violations_count)
  then have pf: "pf_violations df ?p fv = Inr (fv + pf_out_of_range cfg df)"
    by (simp only: pf_out_of_range_def)
  let ?v = "fv + pf_out_of_range cfg df"
  let ?c = "1 - real ?v / ?n"
  let ?st = "if ?c < 95 / 100 then ''Issue'' else ''OK''"
  have run: "business_rule_compliance cfg df =
             Inr [(''rule_violations'', PyInt (int ?v)),
                  (''compliance_score'', PyFloat (Fin (round2 ?c))),
                  (''status'', PyStr ?st)]"
    by (simp only: business_rule_compliance_def Let_def fv sum.case pf n_rules_def)
  have n: "0 < ?n" by (simp add: add_nonneg_pos)
  then have "0 \<le> real ?v / ?n" by simp
  then have "?c \<le> 1" by simp
  then have hi: "round2 ?c \<le> 1" using round2_mono [of ?c 1] by (simp add: round2_1)
  have lo: "0 \<le> round2 ?c" if "?v \<le> n_rules cfg df"
  proof -
    from that have "real ?v \<le> real (n_rules cfg df)" by (simp only: of_nat_le_iff)
    then have "real ?v \<le> ?n" by simp
    then have "real ?v / ?n \<le> 1" using n by (simp only: divide_le_eq_1_pos)
    then have "0 \<le> ?c" by simp
    then show ?thesis using round2_mono [of 0 ?c] by (simp add: round2_0)
  qed
  have neg: "round2 ?c \<le> 0" if "n_rules cfg df < ?v"
  proof -
    from that have "n_rules cfg df + 1 \<le> ?v" by simp
    then have "real (n_rules cfg df + 1) \<le> real ?v" by (simp only: of_nat_le_iff)
    then have "?n \<le> real ?v" by simp
    then have "1 \<le> real ?v / ?n" using n by (simp only: le_divide_eq_1_pos)
    then have "?c \<le> 0" by simp
    then show ?thesis using round2_mono [of ?c 0] by (simp add: round2_0)
  qed
  have st: "?st = ''Issue'' \<and> round2 ?c \<le> 95 / 100 \<or> ?st = ''OK'' \<and> 95 / 100 \<le> round2 ?c"
  proof (cases "?c < 95 / 100")
    case True
    then have "round2 ?c \<le> round2 (95 / 100)" by (intro round2_mono) simp
    then show ?thesis using True by (simp add: round2_95)
  next
    case False
    then have "round2 (95 / 100) \<le> round2 ?c" by (intro round2_mono) simp
    then show ?thesis using False by (simp add: round2_95)
  qed
  show ?thesis
    apply (rule exI [of _ fv])
    apply (rule exI [of _ "round2 ?c"])
    apply (rule exI [of _ ?st])
    apply (intro conjI impI)
    apply (rule run)
    apply (simp add: n_freq_rules_def fv(2))
    apply (rule hi)
    apply (erule lo)
    apply (erule neg)
    apply (rule st)
    done
qed

text \<open>
  The claim as stated puts the score in \<open>[0, 1]\<close> for every table.  Every power-factor cell
  out of range is a violation of its own, so one rule can be violated twice: the score of
  the table below is \<open>-1\<close>.
\<close>

theorem compliance_score_counterexample:
  "business_rule_compliance pf_config pf_table =
     Inr [(''rule_violations'', PyInt 2),
          (''compliance_score'', PyFloat (Fin (- 1))),
          (''status'', PyStr ''Issue'')]
   \<and> \<not> compliance_in_unit_interval
          [(''rule_violations'', PyInt 2),
           (''compliance_score'', PyFloat (Fin (- 1))),
           (''status'', PyStr ''Issue'')]"
proof -
  have "round2 (1 - 2 / (1 + 1 / 1000000)) = - 1"
    using rint_neg_100 by (simp add: round2_def)
  then show ?thesis
    by (simp add: business_rule_compliance_def pf_config_def pf_table_def col_in_def
        df_getitem_def series_lt_def series_gt_def series_or_def Let_def
        compliance_in_unit_interval_def dict_get_def)
qed

text \<open>The theorem at a table with two rules and one violation.\<close>

theorem compliance_score_bounds_witness:
  "numeric_column grid_table ''hz'' \<and> numeric_column grid_table ''pf'' \<and>
   n_freq_rules grid_config grid_table = 1 \<and> n_rules grid_config grid_table = 2 \<and>
   pf_out_of_range grid_config grid_table = 1 \<and>
   business_rule_compliance grid_config grid_table =
     Inr [(''rule_violations'', PyInt 1),
          (''compliance_score'', PyFloat (Fin (1 / 2))),
          (''status'', PyStr ''Issue'')]"
proof -
  have nh: "numeric_column grid_table ''hz''" and np: "numeric_column grid_table ''pf''"
    by (simp_all add: numeric_column_def grid_table_def df_getitem_def)
  have f: "n_freq_rules grid_config grid_table = 1"
    by (simp add: n_freq_rules_def grid_config_def grid_table_def col_in_def)
  have n: "n_rules grid_config grid_table = 2"
    by (simp add: n_rules_def grid_config_def grid_table_def col_in_def)
  have p: "pf_out_of_range grid_config grid_table = 1"
    by (simp add: pf_out_of_range_def out_of_range_cells_def grid_config_def grid_table_def
        col_in_def df_getitem_def)
  have "\<forall>col\<in>set (frequency_columns grid_config @ powerfactor_columns grid_config).
          col_in col grid_table \<longrightarrow> numeric_column grid_table col"
    using nh np by (simp add: grid_config_def)
  from compliance_score_bounds [OF this] obtain fv s st where
    run: "business_rule_compliance grid_config grid_table =
            Inr [(''rule_violations'', PyInt (int (fv + 1))),
                 (''compliance_score'', PyFloat (Fin s)), (''status'', PyStr st)]"
    and fv: "fv \<le> 1"
    unfolding f p by blast
  have "\<lfloor>100000100 / 2000001 :: real\<rfloor> = 50" by (simp add: floor_eq_iff)
  then have "rint (100000100 / 2000001) = 50" by (simp add: rint_def Let_def)
  then have "round2 (1 - 1 / (2 + 1 / 1000000)) = 1 / 2" by (simp add: round2_def)
  then have "business_rule_compliance grid_config grid_table =
     Inr [(''rule_violations'', PyInt 1),
          (''compliance_score'', PyFloat (Fin (1 / 2))),
          (''status'', PyStr ''Issue'')]"
    by (simp add: business_rule_compliance_def grid_config_def grid_table_def col_in_def
        df_getitem_def series_lt_def series_gt_def series_or_def series_std_def fl_gt_def Let_def)
  with run nh np f n p show ?thesis by blast
qed

section \<open>Domain value validity\<close>

text \<open>
  Claim C8.  The rule \<open>status: [A, B]\<close> names two allowed values, and the branch of the code
  headed \<open>Category-based rule (allowed values)\<close> tests membership.  A list of two entries
  never reaches that branch: it is read as \<open>[min, max]\<close>, whatever its entries are.  The
  column with \<open>C\<close> is reported invalid, as the example says, because \<open>C\<close> lies above \<open>B\<close> in
  the order of strings.  The column with \<open>AB\<close>, a value outside the allowed set as well, is
  not reported: the result is an empty \<open>invalid_columns\<close>, the score 1 and the status \<open>OK\<close>.
  The same allowed values written as a list of three entries do report it.
\<close>

theorem domain_two_values_read_as_range:
  "domain_value_validity status_rules status_table =
     Inr [(''invalid_columns'', PyList [PyStr ''status'']),
          (''domain_validity_score'', PyFloat (Fin 0)),
          (''status'', PyStr ''Issue'')]
   \<and> domain_value_validity status_rules status_between =
     Inr [(''invalid_columns'', PyList []),
          (''domain_validity_score'', PyFloat (Fin 1)),
          (''status'', PyStr ''OK'')]
   \<and> domain_value_validity status_rules_of_three status_between =
     Inr [(''invalid_columns'', PyList [PyStr ''status'']),
          (''domain_validity_score'', PyFloat (Fin 0)),
          (''status'', PyStr ''Issue'')]"
  by (simp add: domain_value_validity_def status_rules_def status_rules_of_three_def
      status_table_def status_between_def col_in_def df_getitem_def
      series_lt_def series_gt_def series_or_def round2_0 round2_1)

section \<open>Temporal continuity\<close>






















section \<open>Running an operation twice\<close>

lemma to_timestamp_coerce: "to_timestamp parse (coerce_cell parse x) = to_timestamp parse x"
  by (cases x) (auto simp: coerce_cell_def to_timestamp_def split: option.splits)

lemma coerce_cell_idem: "coerce_cell parse (coerce_cell parse x) = coerce_cell parse x"
  by (simp add: coerce_cell_def to_timestamp_coerce [unfolded coerce_cell_def])

lemma coerce_cell_parsed: "isnull (coerce_cell parse x) \<or> to_timestamp parse (coerce_cell parse x) \<noteq> None"
  by (cases x) (auto simp: coerce_cell_def to_timestamp_def split: option.splits)

lemma to_datetime_ignore_idem:
  "to_datetime_ignore parse (to_datetime_ignore parse c) = to_datetime_ignore parse c"
proof (cases "list_all (\<lambda>x. isnull x \<or> to_timestamp parse x \<noteq> None) c")
  case True
  have "list_all (\<lambda>x. isnull x \<or> to_timestamp parse x \<noteq> None) (map (coerce_cell parse) c)"
    using coerce_cell_parsed by (simp add: list_all_iff)
  with True show ?thesis by (simp add: to_datetime_ignore_def coerce_cell_idem)
next
  case False
  then show ?thesis by (simp add: to_datetime_ignore_def)
qed

lemma map_of_replace:
  "map_of (map (\<lambda>p. if fst p = col then (col, c') else p) xs) k =
     (if k = col then (case map_of xs col of None \<Rightarrow> None | Some c \<Rightarrow> Some c') else map_of xs k)"
  by (induction xs) auto

lemma getitem_setitem:
  "df_getitem (df_setitem df col c') k =
     (if k = col then (case df_getitem df col of Inl e \<Rightarrow> Inl e | Inr c \<Rightarrow> Inr c')
      else df_getitem df k)"
  by (auto simp: df_getitem_def df_setitem_def map_of_replace split: option.splits)

lemma names_setitem: "map fst (columns (df_setitem df col c')) = map fst (columns df)"
  by (simp add: df_setitem_def comp_def cong: map_cong)

lemma setitem_same:
  assumes "distinct (map fst (columns df))" and "df_getitem df col = Inr c"
  shows "df_setitem df col c = df"
proof -
  have "map (\<lambda>p. if fst p = col then (col, c) else p) (columns df) = columns df"
  proof (rule map_idI)
    fix p assume p: "p \<in> set (columns df)"
    show "(if fst p = col then (col, c) else p) = p"
    proof (cases "fst p = col")
      case True
      with p assms(1) have "map_of (columns df) col = Some (snd p)"
        by (cases p) (auto intro: map_of_is_SomeI)
      with assms(2) True show ?thesis
        by (cases p) (auto simp: df_getitem_def)
    next
      case False
      then show ?thesis by simp
    qed
  qed
  then show ?thesis by (simp add: df_setitem_def)
qed

lemma same_parsed_refl: "same_parsed parse df df"
  by (auto simp: same_parsed_def split: sum.splits)

lemma same_parsed_step:
  assumes "same_parsed parse dfa dfb" and "df_getitem dfb col = Inr b"
  shows "same_parsed parse dfa (df_setitem dfb col (to_datetime_ignore parse b))"
  unfolding same_parsed_def
proof
  fix k
  from assms(1) have k: "case df_getitem dfa k of
              Inl e \<Rightarrow> df_getitem dfb k = Inl e
            | Inr a \<Rightarrow> (\<exists>b. df_getitem dfb k = Inr b \<and>
                          to_datetime_ignore parse b = to_datetime_ignore parse a)"
    by (simp add: same_parsed_def)
  show "case df_getitem dfa k of
              Inl e \<Rightarrow> df_getitem (df_setitem dfb col (to_datetime_ignore parse b)) k = Inl e
            | Inr a \<Rightarrow> (\<exists>b'. df_getitem (df_setitem dfb col (to_datetime_ignore parse b)) k = Inr b' \<and>
                          to_datetime_ignore parse b' = to_datetime_ignore parse a)"
    using k assms(2)
    by (auto simp: getitem_setitem to_datetime_ignore_idem split: sum.splits)
qed

lemma timeliness_loop_same_parsed:
  "same_parsed parse df0 df \<Longrightarrow> same_parsed parse df0 (snd (timeliness_loop parse df cols res))"
proof (induction cols arbitrary: df res)
  case Nil
  then show ?case by simp
next
  case (Cons col cols)
  show ?case
  proof (cases "df_getitem df col")
    case (Inl e)
    with Cons.prems show ?thesis by simp
  next
    case (Inr c)
    from same_parsed_step [OF Cons.prems Inr]
    have "same_parsed parse df0 (df_setitem df col (to_datetime_ignore parse c))" .
    from Cons.IH [OF this] show ?thesis
      by (simp add: Inr Let_def split: option.splits)
  qed
qed

lemma timeliness_loop_result:
  "same_parsed parse dfa dfb \<Longrightarrow>
     fst (timeliness_loop parse dfa cols res) = fst (timeliness_loop parse dfb cols res)"
proof (induction cols arbitrary: dfa dfb res)
  case Nil
  then show ?case by simp
next
  case (Cons col cols)
  show ?case
  proof (cases "df_getitem dfa col")
    case (Inl e)
    moreover from Cons.prems have "case df_getitem dfa col of
              Inl e \<Rightarrow> df_getitem dfb col = Inl e
            | Inr a \<Rightarrow> (\<exists>b. df_getitem dfb col = Inr b \<and>
                          to_datetime_ignore parse b = to_datetime_ignore parse a)"
      by (simp add: same_parsed_def)
    ultimately have "df_getitem dfb col = Inl e" by simp
    with Inl show ?thesis by simp
  next
    case (Inr a)
    moreover from Cons.prems have "case df_getitem dfa col of
              Inl e \<Rightarrow> df_getitem dfb col = Inl e
            | Inr a \<Rightarrow> (\<exists>b. df_getitem dfb col = Inr b \<and>
                          to_datetime_ignore parse b = to_datetime_ignore parse a)"
      by (simp add: same_parsed_def)
    ultimately obtain b where b: "df_getitem dfb col = Inr b"
      and eq: "to_datetime_ignore parse b = to_datetime_ignore parse a"
      by auto
    let ?c = "to_datetime_ignore parse a"
    have 1: "same_parsed parse dfa (df_setitem dfb col ?c)"
      using same_parsed_step [OF Cons.prems b] by (simp add: eq)
    have "same_parsed parse (df_setitem dfa col ?c) (df_setitem dfb col ?c)"
      unfolding same_parsed_def
    proof
      fix k
      from 1 have "case df_getitem dfa k of
              Inl e \<Rightarrow> df_getitem (df_setitem dfb col ?c) k = Inl e
            | Inr a' \<Rightarrow> (\<exists>b'. df_getitem (df_setitem dfb col ?c) k = Inr b' \<and>
                          to_datetime_ignore parse b' = to_datetime_ignore parse a')"
        by (simp add: same_parsed_def)
      then show "case df_getitem (df_setitem dfa col ?c) k of
              Inl e \<Rightarrow> df_getitem (df_setitem dfb col ?c) k = Inl e
            | Inr a' \<Rightarrow> (\<exists>b'. df_getitem (df_setitem dfb col ?c) k = Inr b' \<and>
                          to_datetime_ignore parse b' = to_datetime_ignore parse a')"
        using Inr b by (auto simp: getitem_setitem split: sum.splits)
    qed
    from Cons.IH [OF this] show ?thesis
      by (simp add: Inr b eq Let_def split: option.splits)
  qed
qed

lemma timeliness_loop_names:
  "map fst (columns (snd (timeliness_loop parse df cols res))) = map fst (columns df)"
  by (induction cols arbitrary: df res)
     (auto simp: Let_def names_setitem split: sum.splits option.splits)

lemma parsed_in_place_setitem:
  assumes "parsed_in_place parse df k" and "df_getitem df col = Inr c"
  shows "parsed_in_place parse (df_setitem df col (to_datetime_ignore parse c)) k"
  using assms
  by (auto simp: parsed_in_place_def getitem_setitem to_datetime_ignore_idem)

lemma timeliness_loop_keeps_parsed:
  "parsed_in_place parse df k \<Longrightarrow>
     parsed_in_place parse (snd (timeliness_loop parse df cols res)) k"
proof (induction cols arbitrary: df res)
  case Nil
  then show ?case by simp
next
  case (Cons col cols)
  show ?case
  proof (cases "df_getitem df col")
    case (Inl e)
    with Cons.prems show ?thesis by simp
  next
    case (Inr c)
    from Cons.IH [OF parsed_in_place_setitem [OF Cons.prems Inr]]
    show ?thesis by (simp add: Inr Let_def split: option.splits)
  qed
qed

lemma timeliness_loop_parses:
  "fst (timeliness_loop parse df cols res) = Inr r \<Longrightarrow> k \<in> set cols \<Longrightarrow>
     parsed_in_place parse (snd (timeliness_loop parse df cols res)) k"
proof (induction cols arbitrary: df res)
  case Nil
  then show ?case by simp
next
  case (Cons col cols)
  from Cons.prems(1) obtain c where c: "df_getitem df col = Inr c"
    by (cases "df_getitem df col") auto
  let ?df = "df_setitem df col (to_datetime_ignore parse c)"
  let ?res = "case timeliness_entry (to_datetime_ignore parse c) of
                Some entry \<Rightarrow> dict_set res col entry | None \<Rightarrow> res"
  have step: "timeliness_loop parse df (col # cols) res = timeliness_loop parse ?df cols ?res"
    by (simp add: c Let_def split: option.splits)
  show ?case
  proof (cases "k \<in> set cols")
    case True
    have "fst (timeliness_loop parse ?df cols ?res) = Inr r"
      using Cons.prems(1) unfolding step .
    from Cons.IH [OF this True] show ?thesis
      unfolding step .
  next
    case False
    with Cons.prems(2) have "k = col" by simp
    then have "parsed_in_place parse ?df k"
      using c by (auto simp: parsed_in_place_def getitem_setitem to_datetime_ignore_idem)
    from timeliness_loop_keeps_parsed [OF this] show ?thesis
      unfolding step .
  qed
qed

lemma timeliness_loop_fixed:
  "distinct (map fst (columns df)) \<Longrightarrow> (\<And>k. k \<in> set cols \<Longrightarrow> parsed_in_place parse df k) \<Longrightarrow>
     snd (timeliness_loop parse df cols res) = df"
proof (induction cols arbitrary: res)
  case Nil
  then show ?case by simp
next
  case (Cons col cols)
  from Cons.prems(2) [of col] obtain c where c: "df_getitem df col = Inr c"
    and fixed: "to_datetime_ignore parse c = c"
    by (auto simp: parsed_in_place_def)
  have same: "df_setitem df col c = df"
    using Cons.prems(1) c by (rule setitem_same)
  from Cons.IH [OF Cons.prems(1)] Cons.prems(2) show ?case
    by (simp add: c fixed same Let_def split: option.splits)
qed

lemma for_each_col_cong:
  "(\<And>c. c \<in> set cols \<Longrightarrow> f c = g c) \<Longrightarrow> for_each_col f cols res = for_each_col g cols res"
  by (induction cols arbitrary: res) (auto split: sum.splits)

lemma freshness_score_col_days:
  "freshness_score_col parse now df col =
     (case df_getitem df col of
        Inl e \<Rightarrow> Inl e
      | Inr c \<Rightarrow>
          (let score = (case days_since parse now df col of
                          None \<Rightarrow> 0 | Some d \<Rightarrow> max 0 (100 - d))
           in Inr [(''freshness_%'', PyInt score),
                   (''status'', PyStr (if score < 85 then ''Issue'' else ''OK''))]))"
  by (auto simp: freshness_score_col_def days_since_def Let_def split: sum.splits option.splits)

text \<open>
  Claim C3, as the code has it.  \<open>timeliness\<close> writes the parsed columns back into the
  caller's table; run again on the table it left behind, it returns the same result and
  leaves that table as it is.  \<open>freshness_score\<close> reads the clock: two runs on a table
  return the same result whenever the whole days between the clock and the latest timestamp
  agree for every column, as they do at one and the same reading.
\<close>

theorem rerun_same_result:
  "(wf_table df \<and> timeliness parse df cols = (Inr r, df') \<longrightarrow>
      timeliness parse df' cols = (Inr r, df'))
   \<and> ((\<forall>col\<in>set cols. days_since parse now df col = days_since parse now' df col) \<longrightarrow>
      freshness_score parse now df cols = freshness_score parse now' df cols)"
proof (intro conjI impI)
  assume a: "wf_table df \<and> timeliness parse df cols = (Inr r, df')"
  then have run: "timeliness_loop parse df cols [] = (Inr r, df')"
    by (simp add: timeliness_def)
  then have r: "fst (timeliness_loop parse df cols []) = Inr r"
    and d: "snd (timeliness_loop parse df cols []) = df'"
    by simp_all
  have "same_parsed parse df df'"
    using timeliness_loop_same_parsed [OF same_parsed_refl, of parse df cols "[]"] d by simp
  then have res: "fst (timeliness_loop parse df' cols []) = Inr r"
    using timeliness_loop_result [of parse df df' cols "[]"] r by simp
  have names: "distinct (map fst (columns df'))"
    using a timeliness_loop_names [of parse df cols "[]"] d by (simp add: wf_table_def)
  have "parsed_in_place parse df' k" if "k \<in> set cols" for k
    using timeliness_loop_parses [OF r that] d by simp
  then have "snd (timeliness_loop parse df' cols []) = df'"
    using names by (intro timeliness_loop_fixed) auto
  with res show "timeliness parse df' cols = (Inr r, df')"
    by (simp add: timeliness_def prod_eq_iff)
next
  assume same: "\<forall>col\<in>set cols. days_since parse now df col = days_since parse now' df col"
  have "freshness_score_col parse now df c = freshness_score_col parse now' df c"
    if "c \<in> set cols" for c
  proof -
    from same that have "days_since parse now df c = days_since parse now' df c" by blast
    then show ?thesis by (simp only: freshness_score_col_days)
  qed
  then show "freshness_score parse now df cols = freshness_score parse now' df cols"
    unfolding freshness_score_def by (rule for_each_col_cong)
qed

lemma dated_getitem:
  "df_getitem dated_table ''t'' = Inr [Text ''1970-01-02'', Text ''1970-01-01'', Null]"
  by (simp add: dated_table_def df_getitem_def)

lemma dated_parsed: "to_datetime_dropna day_parser
     [Text ''1970-01-02'', Text ''1970-01-01'', Null] = [86400000000000, 0]"
  by (simp add: to_datetime_dropna_def to_timestamp_def day_parser_def)

lemma dated_freshness:
  "freshness_score day_parser now dated_table [''t''] =
     Inr [(''t'', [(''freshness_%'', PyInt (max 0 (100 - td_days (now - 86400000000000)))),
                   (''status'', PyStr (if max 0 (100 - td_days (now - 86400000000000)) < 85
                                       then ''Issue'' else ''OK''))])]"
  by (simp add: freshness_score_def freshness_score_col_def dated_getitem dated_parsed
      series_max_def Let_def)

text \<open>
  The claim as stated makes every result a function of the table alone.  Twenty days
  later \<open>freshness_score\<close> returns another score and another status for the same table.
\<close>

theorem freshness_clock_counterexample:
  "freshness_score day_parser 172800000000000 dated_table [''t''] =
     Inr [(''t'', [(''freshness_%'', PyInt 99), (''status'', PyStr ''OK'')])]
   \<and> freshness_score day_parser 1900800000000000 dated_table [''t''] =
     Inr [(''t'', [(''freshness_%'', PyInt 79), (''status'', PyStr ''Issue'')])]
   \<and> freshness_score day_parser 172800000000000 dated_table [''t''] \<noteq>
     freshness_score day_parser 1900800000000000 dated_table [''t'']"
  by (simp add: dated_freshness td_days_def)

lemma dated_timeliness:
  "timeliness day_parser dated_table [''t''] =
     (Inr [(''t'', [(''large_gaps'', PyInt 0), (''status'', PyStr ''OK'')])], dated_table_parsed)"
proof -
  have c: "to_datetime_ignore day_parser [Text ''1970-01-02'', Text ''1970-01-01'', Null] =
      [Stamp 86400000000000, Stamp 0, Null]"
    by (simp add: to_datetime_ignore_def coerce_cell_def to_timestamp_def day_parser_def)
  have e: "timeliness_entry [Stamp 86400000000000, Stamp 0, Null] =
      Some [(''large_gaps'', PyInt 0), (''status'', PyStr ''OK'')]"
    by (simp add: timeliness_entry_def is_datetime64_def gaps_seconds_def total_seconds_def
        series_median_def fl_gt_def Let_def)
  have s: "df_setitem dated_table ''t'' [Stamp 86400000000000, Stamp 0, Null] = dated_table_parsed"
    by (simp add: df_setitem_def dated_table_def dated_table_parsed_def)
  show ?thesis
    by (simp add: timeliness_def dated_getitem c e s)
qed

text \<open>
  The theorem at a table of two dates: \<open>timeliness\<close> replaces the strings by timestamps,
  the second run returns what the first did, and \<open>freshness_score\<close> agrees at two readings
  an hour apart.
\<close>

theorem rerun_same_result_witness:
  "wf_table dated_table
   \<and> timeliness day_parser dated_table [''t''] =
       (Inr [(''t'', [(''large_gaps'', PyInt 0), (''status'', PyStr ''OK'')])], dated_table_parsed)
   \<and> timeliness day_parser dated_table_parsed [''t''] =
       (Inr [(''t'', [(''large_gaps'', PyInt 0), (''status'', PyStr ''OK'')])], dated_table_parsed)
   \<and> dated_table_parsed \<noteq> dated_table
   \<and> days_since day_parser 172800000000000 dated_table ''t'' = Some 1
   \<and> days_since day_parser 176400000000000 dated_table ''t'' = Some 1
   \<and> freshness_score day_parser 172800000000000 dated_table [''t''] =
       freshness_score day_parser 176400000000000 dated_table [''t'']"
proof -
  have wf: "wf_table dated_table" by (simp add: wf_table_def dated_table_def)
  note t = rerun_same_result [where df = dated_table and parse = day_parser and cols = "[''t'']"]
  have 2: "timeliness day_parser dated_table_parsed [''t''] =
       (Inr [(''t'', [(''large_gaps'', PyInt 0), (''status'', PyStr ''OK'')])], dated_table_parsed)"
    using t [THEN conjunct1] wf dated_timeliness by blast
  have ne: "dated_table_parsed \<noteq> dated_table"
    by (simp add: dated_table_def dated_table_parsed_def)
  have d1: "days_since day_parser 172800000000000 dated_table ''t'' = Some 1"
    and d2: "days_since day_parser 176400000000000 dated_table ''t'' = Some 1"
    by (simp_all add: days_since_def dated_getitem dated_parsed series_max_def td_days_def)
  have 3: "freshness_score day_parser 172800000000000 dated_table [''t''] =
       freshness_score day_parser 176400000000000 dated_table [''t'']"
    using t [where now = 172800000000000 and now' = 176400000000000, THEN conjunct2] d1 d2
    by simp
  from wf dated_timeliness 2 ne d1 d2 3 show ?thesis by blast
qed

section \<open>Isolation of a column's failure\<close>

lemma convert_finite: "finite_leaf v \<Longrightarrow> convert_to_python_types v = v"
  by (induction v rule: convert_to_python_types.induct) (auto simp: list_all_iff map_idI)

lemma finite_convert: "finite_leaf (convert_to_python_types v)"
  by (induction v rule: convert_to_python_types.induct) (auto simp: list_all_iff)

lemma convert_dict_finite: "finite_leaves d \<Longrightarrow> convert_dict d = d"
  by (induction d) (auto simp: finite_leaves_def convert_dict_def convert_finite)

lemma decimal_entry_finite:
  "finite_leaves (case decimal_precision_col str df col of
                    Inl e \<Rightarrow> error_entry e | Inr entry \<Rightarrow> entry)"
  by (auto simp: decimal_precision_col_def finite_leaves_def error_entry_def Let_def list_all_iff
      split: sum.splits)

lemma dict_get_Nil: "dict_get [] k = None"
  by (simp add: dict_get_def)

lemma for_each_col_try_get:
  "dict_get (for_each_col_try body cols res) k =
     (if k \<in> set cols then Some (case body k of Inl e \<Rightarrow> error_entry e | Inr entry \<Rightarrow> entry)
      else dict_get res k)"
  by (induction cols arbitrary: res) (auto simp: dict_get_dict_set)

lemma dict_get_convert_result:
  "dict_get (convert_result r) k = map_option convert_dict (dict_get r k)"
  by (induction r) (auto simp: convert_result_def dict_get_def)

text \<open>
  The loop of \<open>decimal_precision\<close> isolates a column: every listed column has an entry,
  the error entry when its computation raised and its own result otherwise.
\<close>

lemma decimal_precision_isolates:
  "dict_get (decimal_precision str df cols) k =
     (if k \<in> set cols
      then Some (case decimal_precision_col str df k of
                   Inl e \<Rightarrow> error_entry e | Inr entry \<Rightarrow> entry)
      else None)"
  by (simp add: decimal_precision_def dict_get_convert_result for_each_col_try_get
      convert_dict_finite [OF decimal_entry_finite] dict_get_Nil)

lemma quantile_readings:
  "quantile (1 / 4) [1, 2] = Fin (5 / 4)" "quantile (3 / 4) [1, 2] = Fin (7 / 4)"
  by (simp_all add: quantile_def Let_def)

lemma outlier_score_col_y:
  "outlier_score_col readings ''y'' =
     Inr [(''outlier_%'', PyFloat (Fin 0)), (''status'', PyStr ''OK'')]"
  by (simp add: outlier_score_col_def readings_def df_getitem_def quantile_readings
      fl_sub_def is_outlier_def fl_gt_def round2_0 Let_def)

text \<open>
  The loop of \<open>outlier_score\<close> has no handler: the first column whose computation raises
  ends the operation with that exception, whatever the columns after it would give.
\<close>

lemma outlier_score_first_failure:
  assumes "outlier_score_col df col = Inl e"
    and "\<And>c. c \<in> set before \<Longrightarrow> \<exists>entry. outlier_score_col df c = Inr entry"
  shows "outlier_score df (before @ col # after) = Inl e"
  unfolding outlier_score_def using assms by (rule for_each_col_raises)

text \<open>
  Claim C1 asks the same of every per-column operation.  \<open>outlier_score\<close> has no handler:
  called with the columns \<open>x\<close> and \<open>y\<close> on a table that has only \<open>y\<close>, it raises the
  \<open>KeyError\<close> of \<open>x\<close> and returns nothing, although the result of \<open>y\<close> is computable; on a
  table without rows it raises \<open>ZeroDivisionError\<close>.  \<open>decimal_precision\<close> on the first
  input records the error for \<open>x\<close> and still reports \<open>y\<close>.
\<close>

theorem outlier_score_aborts:
  "outlier_score readings [''x'', ''y''] = Inl (KeyError ''x'')
   \<and> outlier_score_col readings ''y'' =
       Inr [(''outlier_%'', PyFloat (Fin 0)), (''status'', PyStr ''OK'')]
   \<and> outlier_score no_rows [''a''] = Inl (ZeroDivisionError ''division by zero'')
   \<and> dict_get (decimal_precision str readings [''x'', ''y'']) ''x'' =
       Some (error_entry (KeyError ''x''))
   \<and> dict_get (decimal_precision str readings [''x'', ''y'']) ''y'' =
       Some [(''unique_decimal_counts'',
                PyList (map (\<lambda>n. PyInt (int n))
                  (sort (remdups [decimal_places (str (Num 1)), decimal_places (str (Num 2))])))),
             (''status'', PyStr ''OK'')]"
proof -
  have x: "outlier_score_col readings ''x'' = Inl (KeyError ''x'')"
    by (simp add: outlier_score_col_def readings_def df_getitem_def)
  have 1: "outlier_score readings [''x'', ''y''] = Inl (KeyError ''x'')"
    by (simp add: outlier_score_def x)
  have 3: "outlier_score no_rows [''a''] = Inl (ZeroDivisionError ''division by zero'')"
    by (simp add: outlier_score_def outlier_score_col_def no_rows_def df_getitem_def Let_def)
  have dx: "decimal_precision_col str readings ''x'' = Inl (KeyError ''x'')"
    by (simp add: decimal_precision_col_def readings_def df_getitem_def)
  have len: "length (remdups [decimal_places (str (Num 1)), decimal_places (str (Num 2))]) \<le> 2"
    by simp
  have dy: "decimal_precision_col str readings ''y'' =
      Inr [(''unique_decimal_counts'',
                PyList (map (\<lambda>n. PyInt (int n))
                  (sort (remdups [decimal_places (str (Num 1)), decimal_places (str (Num 2))])))),
             (''status'', PyStr ''OK'')]"
    using len
    by (simp add: decimal_precision_col_def readings_def df_getitem_def dropna_def Let_def
        del: remdups.simps)
  show ?thesis
    using 1 outlier_score_col_y 3
    by (simp add: decimal_precision_isolates dx dy del: remdups.simps)
qed

section \<open>Scores that are not numbers\<close>

text \<open>
  Claim C2 asks that no returned score be NaN or infinite.  On a table without rows
  \<open>completeness\<close> and \<open>uniqueness\<close> divide zero by zero and return NaN as the score, and
  \<open>temporal_pattern\<close> returns NaN for a column whose timestamps fall into one hour.  The
  conversion that the precision service applies to its own results would have replaced
  the NaN by \<open>None\<close>.
\<close>

theorem nan_scores:
  "completeness no_rows =
     [(''score'', PyFloat NaN), (''missing_cells'', PyInt 0), (''status'', PyStr ''GOOD'')]
   \<and> \<not> finite_leaves (completeness no_rows)
   \<and> uniqueness no_rows =
     [(''duplicate_count'', PyInt 0), (''uniqueness_score'', PyFloat NaN),
      (''status'', PyStr ''OK'')]
   \<and> \<not> finite_leaves (uniqueness no_rows)
   \<and> temporal_pattern no_parser one_stamp [''t''] =
     Inr [(''t'', [(''pattern_score_%'', PyFloat NaN), (''status'', PyStr ''OK'')])]
   \<and> convert_dict (completeness no_rows) =
     [(''score'', PyNone), (''missing_cells'', PyInt 0), (''status'', PyStr ''GOOD'')]"
proof -
  have c: "completeness no_rows =
     [(''score'', PyFloat NaN), (''missing_cells'', PyInt 0), (''status'', PyStr ''GOOD'')]"
    by (simp add: completeness_def no_rows_def df_size_def isnull_sum_def fl_gt_def)
  have u: "uniqueness no_rows =
     [(''duplicate_count'', PyInt 0), (''uniqueness_score'', PyFloat NaN),
      (''status'', PyStr ''OK'')]"
    by (simp add: uniqueness_def no_rows_def duplicated_sum_def fl_sub_def)
  have t: "temporal_pattern no_parser one_stamp [''t''] =
     Inr [(''t'', [(''pattern_score_%'', PyFloat NaN), (''status'', PyStr ''OK'')])]"
    by (simp add: temporal_pattern_def temporal_pattern_col_def one_stamp_def df_getitem_def
        to_datetime_dropna_def to_timestamp_def value_counts_normalized_def hour_of_def
        series_std_def fl_sub_def Let_def)
  show ?thesis
    unfolding c u t by (simp add: finite_leaves_def convert_dict_def)
qed

end
